theory Spec2Isabelle
  imports Main "HOL-Library.Word"
begin

section \<open>The button/LED kernel module \<^verbatim>\<open>practice1.c\<close>\<close>

text \<open>
  The module owns six GPIO lines (two LEDs, four buttons), four press counters, two LED
  flags and four interrupt numbers, all of them file-level statics. It has six entry
  points: \<^verbatim>\<open>ebbgpio_init\<close>, \<^verbatim>\<open>ebbgpio_exit\<close> and one interrupt handler per
  button. Every entry point is modelled as a function on an explicit state holding the
  statics, the state of the GPIO/IRQ backend, and the chronological trace of everything
  the code did (calls into the kernel, log lines, stores to the LED flags, the counters
  and the interrupt numbers), one trace entry per source statement, in program order.
\<close>

subsection \<open>Machine types and constants\<close>

type_synonym u32 = "32 word"  \<comment> \<open>\<^verbatim>\<open>unsigned int\<close>\<close>
type_synonym pin = u32
type_synonym irqnum = u32

datatype button = ButtonA | ButtonB | ButtonC | ButtonD
datatype led = LED1 | LED2

text \<open>Lines 23 to 28: the pin numbers are never assigned after their initialisers.\<close>

definition gpioLED1 :: pin where "gpioLED1 = 14"
definition gpioLED2 :: pin where "gpioLED2 = 15"
definition gpioButtonA :: pin where "gpioButtonA = 8"
definition gpioButtonB :: pin where "gpioButtonB = 7"
definition gpioButtonC :: pin where "gpioButtonC = 23"
definition gpioButtonD :: pin where "gpioButtonD = 24"

text \<open>Lines 39 to 42: \<^verbatim>\<open>argv1[0]\<close> to \<^verbatim>\<open>argv4[0]\<close>, the notification scripts.\<close>

definition argv1 :: string where "argv1 = ''/usr/bin/buttonScripts/buttonA.sh''"
definition argv2 :: string where "argv2 = ''/usr/bin/buttonScripts/buttonB.sh''"
definition argv3 :: string where "argv3 = ''/usr/bin/buttonScripts/buttonC.sh''"
definition argv4 :: string where "argv4 = ''/usr/bin/buttonScripts/buttonD.sh''"

text \<open>Kernel constants used by the module: the errno values and \<^verbatim>\<open>enum irqreturn\<close>.\<close>

definition ENODEV :: int where "ENODEV = 19"
definition EBUSY :: int where "EBUSY = 16"
definition EINVAL :: int where "EINVAL = 22"

datatype irqreturn = IRQ_NONE | IRQ_HANDLED | IRQ_WAKE_THREAD

subsection \<open>Everything the code does, as trace entries\<close>

datatype arg = U u32 | I int  \<comment> \<open>a \<^verbatim>\<open>printk\<close> argument: unsigned or \<^verbatim>\<open>int\<close>\<close>

datatype event =
    GpioRequest pin string
  | GpioDirectionOutput pin bool
  | GpioDirectionInput pin
  | GpioSetDebounce pin nat
  | GpioExport pin bool
  | GpioUnexport pin
  | GpioSetValue pin bool
  | GpioFree pin
  | RequestIrq irqnum button
  | FreeIrq irqnum
  | CallUsermodehelper string
  | Printk string "arg list"
  | StoreLed led bool
  | StoreCounter button u32
  | StoreIrq button u32

subsection \<open>The GPIO and interrupt backend\<close>

text \<open>
  What the platform decides and the module cannot influence: which pin numbers are valid
  (\<^verbatim>\<open>gpio_is_valid\<close>), the interrupt each pin maps to (\<^verbatim>\<open>gpio_to_irq\<close>), whether
  the platform rejects a registration on an interrupt (0, or a negative errno), and the
  result of launching a user-mode helper (0, or a negative errno).
\<close>

record platform =
  gpio_valid :: "pin \<Rightarrow> bool"
  gpio_irq :: "pin \<Rightarrow> int"
  irq_reject :: "irqnum \<Rightarrow> int"
  umh_result :: "string \<Rightarrow> int"

datatype direction = Input | Output

text \<open>
  The backend's state: the line-ownership table (the set of requested pins), the exported
  lines, each line's direction, debounce window and logical level, and the handler bound
  to each interrupt.
\<close>

record gpio_hw =
  requested :: "pin set"
  exported :: "pin set"
  dir :: "pin \<rightharpoonup> direction"
  debounce :: "pin \<rightharpoonup> nat"
  level :: "pin \<Rightarrow> bool"
  bound :: "irqnum \<rightharpoonup> button"

text \<open>
  Modelled from the spec: the kernel's GPIO and IRQ functions are not part of the
  repository. Their effect on the backend follows sections 4.1 and 4.2 of the spec:
  acquiring fails without side effects on an invalid or already owned pin; exporting
  requires prior acquisition; writing a value is a direct physical write; releasing
  unexports and frees ownership unconditionally; binding registers one handler per
  interrupt unless the platform rejects it; unbinding an unbound interrupt is a no-op.
  Operations on a pin outside the valid range touch nothing.
\<close>

fun hw_step :: "platform \<Rightarrow> event \<Rightarrow> gpio_hw \<Rightarrow> gpio_hw" where
  "hw_step P (GpioRequest p l) h =
     (if gpio_valid P p \<and> p \<notin> requested h then h\<lparr>requested := insert p (requested h)\<rparr> else h)"
| "hw_step P (GpioDirectionOutput p v) h =
     (if gpio_valid P p then h\<lparr>dir := (dir h)(p \<mapsto> Output), level := (level h)(p := v)\<rparr> else h)"
| "hw_step P (GpioDirectionInput p) h =
     (if gpio_valid P p then h\<lparr>dir := (dir h)(p \<mapsto> Input)\<rparr> else h)"
| "hw_step P (GpioSetDebounce p ms) h =
     (if gpio_valid P p then h\<lparr>debounce := (debounce h)(p \<mapsto> ms)\<rparr> else h)"
| "hw_step P (GpioExport p may_change) h =
     (if p \<in> requested h then h\<lparr>exported := insert p (exported h)\<rparr> else h)"
| "hw_step P (GpioUnexport p) h = h\<lparr>exported := exported h - {p}\<rparr>"
| "hw_step P (GpioSetValue p v) h =
     (if gpio_valid P p then h\<lparr>level := (level h)(p := v)\<rparr> else h)"
| "hw_step P (GpioFree p) h =
     h\<lparr>requested := requested h - {p}, exported := exported h - {p}\<rparr>"
| "hw_step P (RequestIrq n b) h =
     (if irq_reject P n = 0 \<and> bound h n = None then h\<lparr>bound := (bound h)(n \<mapsto> b)\<rparr> else h)"
| "hw_step P (FreeIrq n) h = h\<lparr>bound := (bound h)(n := None)\<rparr>"
| "hw_step P (CallUsermodehelper path) h = h"
| "hw_step P (Printk fmt args) h = h"
| "hw_step P (StoreLed l v) h = h"
| "hw_step P (StoreCounter b v) h = h"
| "hw_step P (StoreIrq b v) h = h"

text \<open>
  Modelled from the spec: the value each kernel call returns to the module (0 on success,
  a negative errno otherwise: \<open>InvalidPin\<close>, \<open>LineBusy\<close>, \<open>BindFailed\<close> and
  \<open>NotificationLaunchFailed\<close> of section 7).
\<close>

fun hw_result :: "platform \<Rightarrow> event \<Rightarrow> gpio_hw \<Rightarrow> int" where
  "hw_result P (GpioRequest p l) h =
     (if \<not> gpio_valid P p then - EINVAL else if p \<in> requested h then - EBUSY else 0)"
| "hw_result P (RequestIrq n b) h =
     (if irq_reject P n \<noteq> 0 then irq_reject P n else if bound h n \<noteq> None then - EBUSY else 0)"
| "hw_result P (CallUsermodehelper path) h = umh_result P path"
| "hw_result P (GpioDirectionOutput p v) h = (if gpio_valid P p then 0 else - EINVAL)"
| "hw_result P (GpioDirectionInput p) h = (if gpio_valid P p then 0 else - EINVAL)"
| "hw_result P (GpioSetDebounce p ms) h = (if gpio_valid P p then 0 else - EINVAL)"
| "hw_result P (GpioExport p may_change) h = (if p \<in> requested h then 0 else - EINVAL)"
| "hw_result P e h = 0"

subsection \<open>The module's state\<close>

text \<open>Lines 29 to 38: the statics the module assigns.\<close>

record state =
  irqNumberA :: u32
  irqNumberB :: u32
  irqNumberC :: u32
  irqNumberD :: u32
  numberPressesA :: u32
  numberPressesB :: u32
  numberPressesC :: u32
  numberPressesD :: u32
  led1On :: bool
  led2On :: bool
  hw :: gpio_hw
  trace :: "event list"

text \<open>The statics as their initialisers leave them when the module is loaded.\<close>

definition module_loaded :: "gpio_hw \<Rightarrow> state" where
  "module_loaded h =
     \<lparr>irqNumberA = 0, irqNumberB = 0, irqNumberC = 0, irqNumberD = 0,
      numberPressesA = 0, numberPressesB = 0, numberPressesC = 0, numberPressesD = 0,
      led1On = False, led2On = False, hw = h, trace = []\<rparr>"

text \<open>A backend in which no line is owned, exported or configured and no interrupt is bound.\<close>

definition hw_idle :: gpio_hw where
  "hw_idle = \<lparr>requested = {}, exported = {}, dir = Map.empty, debounce = Map.empty,
              level = (\<lambda>p. False), bound = Map.empty\<rparr>"

subsection \<open>Statements\<close>

text \<open>A call into the kernel: its result, the backend after it, and its trace entry.\<close>

definition kcall :: "platform \<Rightarrow> event \<Rightarrow> state \<Rightarrow> int \<times> state" where
  "kcall P e s = (hw_result P e (hw s), s\<lparr>hw := hw_step P e (hw s), trace := trace s @ [e]\<rparr>)"

text \<open>A call whose result the source discards.\<close>

definition kdo :: "platform \<Rightarrow> event \<Rightarrow> state \<Rightarrow> state" where
  "kdo P e s = snd (kcall P e s)"

definition printk :: "string \<Rightarrow> arg list \<Rightarrow> state \<Rightarrow> state" where
  "printk fmt args s = s\<lparr>trace := trace s @ [Printk fmt args]\<rparr>"

definition gpio_is_valid :: "platform \<Rightarrow> pin \<Rightarrow> bool" where
  "gpio_is_valid P p = gpio_valid P p"

definition gpio_get_value :: "state \<Rightarrow> pin \<Rightarrow> int" where
  "gpio_get_value s p = (if level (hw s) p then 1 else 0)"

text \<open>\<^verbatim>\<open>gpio_to_irq\<close> returns an \<^verbatim>\<open>int\<close>; the source stores it in an \<^verbatim>\<open>unsigned int\<close>.\<close>

definition gpio_to_irq :: "platform \<Rightarrow> pin \<Rightarrow> u32" where
  "gpio_to_irq P p = word_of_int (gpio_irq P p)"

text \<open>Stores to the statics.\<close>

definition set_led1On :: "bool \<Rightarrow> state \<Rightarrow> state" where
  "set_led1On v s = s\<lparr>led1On := v, trace := trace s @ [StoreLed LED1 v]\<rparr>"

definition set_led2On :: "bool \<Rightarrow> state \<Rightarrow> state" where
  "set_led2On v s = s\<lparr>led2On := v, trace := trace s @ [StoreLed LED2 v]\<rparr>"

definition set_irqNumberA :: "u32 \<Rightarrow> state \<Rightarrow> state" where
  "set_irqNumberA v s = s\<lparr>irqNumberA := v, trace := trace s @ [StoreIrq ButtonA v]\<rparr>"

definition set_irqNumberB :: "u32 \<Rightarrow> state \<Rightarrow> state" where
  "set_irqNumberB v s = s\<lparr>irqNumberB := v, trace := trace s @ [StoreIrq ButtonB v]\<rparr>"

definition set_irqNumberC :: "u32 \<Rightarrow> state \<Rightarrow> state" where
  "set_irqNumberC v s = s\<lparr>irqNumberC := v, trace := trace s @ [StoreIrq ButtonC v]\<rparr>"

definition set_irqNumberD :: "u32 \<Rightarrow> state \<Rightarrow> state" where
  "set_irqNumberD v s = s\<lparr>irqNumberD := v, trace := trace s @ [StoreIrq ButtonD v]\<rparr>"

text \<open>\<^verbatim>\<open>numberPressesX++\<close> on an \<^verbatim>\<open>unsigned int\<close>: addition modulo \<open>2 ^ 32\<close>.\<close>

definition inc_numberPressesA :: "state \<Rightarrow> state" where
  "inc_numberPressesA s =
     s\<lparr>numberPressesA := numberPressesA s + 1,
       trace := trace s @ [StoreCounter ButtonA (numberPressesA s + 1)]\<rparr>"

definition inc_numberPressesB :: "state \<Rightarrow> state" where
  "inc_numberPressesB s =
     s\<lparr>numberPressesB := numberPressesB s + 1,
       trace := trace s @ [StoreCounter ButtonB (numberPressesB s + 1)]\<rparr>"

definition inc_numberPressesC :: "state \<Rightarrow> state" where
  "inc_numberPressesC s =
     s\<lparr>numberPressesC := numberPressesC s + 1,
       trace := trace s @ [StoreCounter ButtonC (numberPressesC s + 1)]\<rparr>"

definition inc_numberPressesD :: "state \<Rightarrow> state" where
  "inc_numberPressesD s =
     s\<lparr>numberPressesD := numberPressesD s + 1,
       trace := trace s @ [StoreCounter ButtonD (numberPressesD s + 1)]\<rparr>"

subsection \<open>The interrupt handlers (lines 185 to 219)\<close>

text \<open>
  The parameters \<^verbatim>\<open>dev_id\<close> and \<^verbatim>\<open>regs\<close> are opaque pointers the handlers never
  read and are left out; \<^verbatim>\<open>irq\<close> is kept although it is not read either. The text of each
  log line is kept without its trailing newline.
\<close>

definition ebbgpio_irq_handlerA :: "platform \<Rightarrow> irqnum \<Rightarrow> state \<Rightarrow> irqreturn \<times> state" where
  "ebbgpio_irq_handlerA P irq s0 =
    (let s1 = set_led1On True s0;
         s2 = kdo P (GpioSetValue gpioLED1 (led1On s1)) s1;
         s3 = printk ''GPIO_TEST: Interrupt! (button A state is %d)''
                [I (gpio_get_value s2 gpioButtonA)] s2;
         s4 = kdo P (CallUsermodehelper argv1) s3;
         s5 = inc_numberPressesA s4
     in (IRQ_HANDLED, s5))"

definition ebbgpio_irq_handlerB :: "platform \<Rightarrow> irqnum \<Rightarrow> state \<Rightarrow> irqreturn \<times> state" where
  "ebbgpio_irq_handlerB P irq s0 =
    (let s1 = set_led1On False s0;
         s2 = kdo P (GpioSetValue gpioLED1 (led1On s1)) s1;
         s3 = printk ''GPIO_TEST: Interrupt! (button B state is %d)''
                [I (gpio_get_value s2 gpioButtonB)] s2;
         s4 = kdo P (CallUsermodehelper argv2) s3;
         s5 = inc_numberPressesB s4
     in (IRQ_HANDLED, s5))"

definition ebbgpio_irq_handlerC :: "platform \<Rightarrow> irqnum \<Rightarrow> state \<Rightarrow> irqreturn \<times> state" where
  "ebbgpio_irq_handlerC P irq s0 =
    (let s1 = set_led2On True s0;
         s2 = kdo P (GpioSetValue gpioLED2 (led2On s1)) s1;
         s3 = printk ''GPIO_TEST: Interrupt! (button C state is %d)''
                [I (gpio_get_value s2 gpioButtonC)] s2;
         s4 = kdo P (CallUsermodehelper argv3) s3;
         s5 = inc_numberPressesC s4
     in (IRQ_HANDLED, s5))"

definition ebbgpio_irq_handlerD :: "platform \<Rightarrow> irqnum \<Rightarrow> state \<Rightarrow> irqreturn \<times> state" where
  "ebbgpio_irq_handlerD P irq s0 =
    (let s1 = set_led2On False s0;
         s2 = kdo P (GpioSetValue gpioLED2 (led2On s1)) s1;
         s3 = printk ''GPIO_TEST: Interrupt! (button D state is %d)''
                [I (gpio_get_value s2 gpioButtonD)] s2;
         s4 = kdo P (CallUsermodehelper argv4) s3;
         s5 = inc_numberPressesD s4
     in (IRQ_HANDLED, s5))"

text \<open>The handler \<^verbatim>\<open>request_irq\<close> registers for each button (lines 116 to 136).\<close>

fun handler :: "button \<Rightarrow> platform \<Rightarrow> irqnum \<Rightarrow> state \<Rightarrow> irqreturn \<times> state" where
  "handler ButtonA = ebbgpio_irq_handlerA"
| "handler ButtonB = ebbgpio_irq_handlerB"
| "handler ButtonC = ebbgpio_irq_handlerC"
| "handler ButtonD = ebbgpio_irq_handlerD"

text \<open>Reading the counter of a button.\<close>

fun numberPresses :: "button \<Rightarrow> state \<Rightarrow> u32" where
  "numberPresses ButtonA s = numberPressesA s"
| "numberPresses ButtonB s = numberPressesB s"
| "numberPresses ButtonC s = numberPressesC s"
| "numberPresses ButtonD s = numberPressesD s"

subsection \<open>Module initialisation (lines 58 to 140)\<close>

text \<open>
  The body after the two validity checks, in four blocks that follow the source's own:
  the LEDs (lines 75 to 83), the buttons (lines 85 to 96), the report of the button levels
  and the interrupt numbers (lines 99 to 112), and the four interrupt registrations
  (lines 116 to 139). A \<^verbatim>\<open>request_irq\<close> entry records the interrupt number and the
  handler registered; the trigger flag, the name and the \<^verbatim>\<open>dev_id\<close> are the same
  constants in all four calls.
\<close>

definition init_leds :: "platform \<Rightarrow> state \<Rightarrow> state" where
  "init_leds P s0 =
    (let s1 = set_led1On True s0;
         s2 = set_led2On True s1;
         s3 = kdo P (GpioRequest gpioLED1 ''sysfs'') s2;
         s4 = kdo P (GpioRequest gpioLED2 ''sysfs'') s3;
         s5 = kdo P (GpioDirectionOutput gpioLED1 (led1On s4)) s4;
         s6 = kdo P (GpioDirectionOutput gpioLED2 (led2On s5)) s5;
         s7 = kdo P (GpioExport gpioLED1 False) s6;
         s8 = kdo P (GpioExport gpioLED2 False) s7
     in s8)"

definition init_buttons :: "platform \<Rightarrow> state \<Rightarrow> state" where
  "init_buttons P s0 =
    (let s1 = kdo P (GpioRequest gpioButtonA ''sysfs'') s0;
         s2 = kdo P (GpioDirectionInput gpioButtonA) s1;
         s3 = kdo P (GpioSetDebounce gpioButtonA 200) s2;
         s4 = kdo P (GpioRequest gpioButtonB ''sysfs'') s3;
         s5 = kdo P (GpioDirectionInput gpioButtonB) s4;
         s6 = kdo P (GpioSetDebounce gpioButtonB 200) s5;
         s7 = kdo P (GpioRequest gpioButtonC ''sysfs'') s6;
         s8 = kdo P (GpioDirectionInput gpioButtonC) s7;
         s9 = kdo P (GpioSetDebounce gpioButtonC 200) s8;
         s10 = kdo P (GpioRequest gpioButtonD ''sysfs'') s9;
         s11 = kdo P (GpioDirectionInput gpioButtonD) s10;
         s12 = kdo P (GpioSetDebounce gpioButtonD 200) s11
     in s12)"

definition init_report :: "platform \<Rightarrow> state \<Rightarrow> state" where
  "init_report P s0 =
    (let s1 = printk ''GPIO_TEST: The button A state is currently: %d''
                [I (gpio_get_value s0 gpioButtonA)] s0;
         s2 = printk ''GPIO_TEST: The button B state is currently: %d''
                [I (gpio_get_value s1 gpioButtonB)] s1;
         s3 = printk ''GPIO_TEST: The button C state is currently: %d''
                [I (gpio_get_value s2 gpioButtonC)] s2;
         s4 = printk ''GPIO_TEST: The button D state is currently: %d''
                [I (gpio_get_value s3 gpioButtonD)] s3;
         s5 = set_irqNumberA (gpio_to_irq P gpioButtonA) s4;
         s6 = printk ''GPIO_TEST: The button A is mapped to IRQ: %d'' [U (irqNumberA s5)] s5;
         s7 = set_irqNumberB (gpio_to_irq P gpioButtonB) s6;
         s8 = printk ''GPIO_TEST: The button B is mapped to IRQ: %d'' [U (irqNumberB s7)] s7;
         s9 = set_irqNumberC (gpio_to_irq P gpioButtonC) s8;
         s10 = printk ''GPIO_TEST: The button C is mapped to IRQ: %d'' [U (irqNumberC s9)] s9;
         s11 = set_irqNumberD (gpio_to_irq P gpioButtonD) s10;
         s12 = printk ''GPIO_TEST: The button D is mapped to IRQ: %d'' [U (irqNumberD s11)] s11
     in s12)"

text \<open>
  The four results are kept in \<^verbatim>\<open>resultA\<close> to \<^verbatim>\<open>resultD\<close>; the function logs and
  returns \<^verbatim>\<open>resultA\<close> only.
\<close>

definition init_request_irqs :: "platform \<Rightarrow> state \<Rightarrow> int \<times> state" where
  "init_request_irqs P s0 =
    (let (resultA, s1) = kcall P (RequestIrq (irqNumberA s0) ButtonA) s0;
         (resultB, s2) = kcall P (RequestIrq (irqNumberB s1) ButtonB) s1;
         (resultC, s3) = kcall P (RequestIrq (irqNumberC s2) ButtonC) s2;
         (resultD, s4) = kcall P (RequestIrq (irqNumberD s3) ButtonD) s3;
         s5 = printk ''GPIO_TEST: The interrupt request result is: %d'' [I resultA] s4
     in (resultA, s5))"

definition ebbgpio_init :: "platform \<Rightarrow> state \<Rightarrow> int \<times> state" where
  "ebbgpio_init P s0 =
    (let s1 = printk ''GPIO_TEST: Initializing the GPIO_TEST LKM'' [] s0
     in if \<not> gpio_is_valid P gpioLED1
        then (- ENODEV, printk ''GPIO_TEST: invalid LED 1 GPIO'' [] s1)
        else if \<not> gpio_is_valid P gpioLED2
        then (- ENODEV, printk ''GPIO_TEST: invalid LED 2 GPIO'' [] s1)
        else init_request_irqs P (init_report P (init_buttons P (init_leds P s1))))"

subsection \<open>Module cleanup (lines 147 to 173)\<close>

definition ebbgpio_exit :: "platform \<Rightarrow> state \<Rightarrow> state" where
  "ebbgpio_exit P s0 =
    (let s1 = printk ''GPIO_TEST: The button state is currently: %d''
                [I (gpio_get_value s0 gpioButtonD)] s0;
         s2 = printk ''GPIO_TEST: The button was pressed %d times'' [U (numberPressesD s1)] s1;
         s3 = kdo P (GpioSetValue gpioLED1 False) s2;
         s4 = kdo P (GpioSetValue gpioLED2 False) s3;
         s5 = kdo P (GpioUnexport gpioLED1) s4;
         s6 = kdo P (GpioUnexport gpioLED2) s5;
         s7 = kdo P (FreeIrq (irqNumberA s6)) s6;
         s8 = kdo P (GpioUnexport gpioButtonA) s7;
         s9 = kdo P (FreeIrq (irqNumberB s8)) s8;
         s10 = kdo P (GpioUnexport gpioButtonB) s9;
         s11 = kdo P (FreeIrq (irqNumberC s10)) s10;
         s12 = kdo P (GpioUnexport gpioButtonC) s11;
         s13 = kdo P (FreeIrq (irqNumberD s12)) s12;
         s14 = kdo P (GpioUnexport gpioButtonD) s13;
         s15 = kdo P (GpioFree gpioLED1) s14;
         s16 = kdo P (GpioFree gpioLED2) s15;
         s17 = kdo P (GpioFree gpioButtonA) s16;
         s18 = kdo P (GpioFree gpioButtonB) s17;
         s19 = kdo P (GpioFree gpioButtonC) s18;
         s20 = kdo P (GpioFree gpioButtonD) s19;
         s21 = printk ''Button A has been pressed %d times.'' [U (numberPressesA s20)] s20;
         s22 = printk ''Button B has been pressed %d times.'' [U (numberPressesB s21)] s21;
         s23 = printk ''Button C has been pressed %d times.'' [U (numberPressesC s22)] s22;
         s24 = printk ''Button D has been pressed %d times.'' [U (numberPressesD s23)] s23;
         s25 = printk ''GPIO_TEST: Goodbye from the LKM!'' [] s24
     in s25)"

text \<open>
  The cleanup in two parts, cut where its calls to \<^verbatim>\<open>gpio_set_value\<close> end: lines 148
  to 151 (the two log lines and the two writes that switch the LEDs off) and lines 152 to
  172 (everything from the first \<^verbatim>\<open>gpio_unexport\<close> on). Up to the cut, and until the
  \<^verbatim>\<open>free_irq\<close> calls of lines 154 to 160, the four handlers are still registered.
\<close>

definition exit_leds_off :: "platform \<Rightarrow> state \<Rightarrow> state" where
  "exit_leds_off P s0 =
    (let s1 = printk ''GPIO_TEST: The button state is currently: %d''
                [I (gpio_get_value s0 gpioButtonD)] s0;
         s2 = printk ''GPIO_TEST: The button was pressed %d times'' [U (numberPressesD s1)] s1;
         s3 = kdo P (GpioSetValue gpioLED1 False) s2;
         s4 = kdo P (GpioSetValue gpioLED2 False) s3
     in s4)"

definition exit_release :: "platform \<Rightarrow> state \<Rightarrow> state" where
  "exit_release P s4 =
    (let s5 = kdo P (GpioUnexport gpioLED1) s4;
         s6 = kdo P (GpioUnexport gpioLED2) s5;
         s7 = kdo P (FreeIrq (irqNumberA s6)) s6;
         s8 = kdo P (GpioUnexport gpioButtonA) s7;
         s9 = kdo P (FreeIrq (irqNumberB s8)) s8;
         s10 = kdo P (GpioUnexport gpioButtonB) s9;
         s11 = kdo P (FreeIrq (irqNumberC s10)) s10;
         s12 = kdo P (GpioUnexport gpioButtonC) s11;
         s13 = kdo P (FreeIrq (irqNumberD s12)) s12;
         s14 = kdo P (GpioUnexport gpioButtonD) s13;
         s15 = kdo P (GpioFree gpioLED1) s14;
         s16 = kdo P (GpioFree gpioLED2) s15;
         s17 = kdo P (GpioFree gpioButtonA) s16;
         s18 = kdo P (GpioFree gpioButtonB) s17;
         s19 = kdo P (GpioFree gpioButtonC) s18;
         s20 = kdo P (GpioFree gpioButtonD) s19;
         s21 = printk ''Button A has been pressed %d times.'' [U (numberPressesA s20)] s20;
         s22 = printk ''Button B has been pressed %d times.'' [U (numberPressesB s21)] s21;
         s23 = printk ''Button C has been pressed %d times.'' [U (numberPressesC s22)] s22;
         s24 = printk ''Button D has been pressed %d times.'' [U (numberPressesD s23)] s23;
         s25 = printk ''GPIO_TEST: Goodbye from the LKM!'' [] s24
     in s25)"

text \<open>
  A qualifying edge on interrupt \<open>n\<close>: the kernel runs the handler that
  \<^verbatim>\<open>request_irq\<close> registered for \<open>n\<close> and that no \<^verbatim>\<open>free_irq\<close> has removed since;
  with no handler registered nothing runs.
\<close>

definition deliver :: "platform \<Rightarrow> irqnum \<Rightarrow> state \<Rightarrow> state" where
  "deliver P n s = (case bound (hw s) n of None \<Rightarrow> s | Some b \<Rightarrow> snd (handler b P n s))"

subsection \<open>A reference platform\<close>

text \<open>
  A board on which the first 512 pin numbers are valid, pin \<open>n\<close> maps to interrupt
  \<open>160 + n\<close>, no registration is rejected and every helper launches.
\<close>

definition board :: platform where
  "board = \<lparr>gpio_valid = (\<lambda>p. p < 512), gpio_irq = (\<lambda>p. 160 + uint p),
            irq_reject = (\<lambda>n. 0), umh_result = (\<lambda>path. 0)\<rparr>"

text \<open>
  A board with sixteen lines only: the pins of buttons C and D (23 and 24) are outside
  its range, \<^verbatim>\<open>gpio_to_irq\<close> answers \<^verbatim>\<open>-EINVAL\<close> for them, and no interrupt of that
  number can be registered.
\<close>

definition small_board :: platform where
  "small_board = \<lparr>gpio_valid = (\<lambda>p. p < 16),
                  gpio_irq = (\<lambda>p. if p < 16 then 160 + uint p else - 22),
                  irq_reject = (\<lambda>n. if n = word_of_int (- 22) then - 22 else 0),
                  umh_result = (\<lambda>path. 0)\<rparr>"

subsection \<open>Reading a trace\<close>


fun released :: "event list \<Rightarrow> pin list" where
  "released [] = []"
| "released (GpioFree p # es) = p # released es"
| "released (e # es) = released es"



text \<open>\<open>precedes a b es\<close>: both occur in \<open>es\<close>, and the first \<open>a\<close> comes before the first \<open>b\<close>.\<close>

fun precedes :: "event \<Rightarrow> event \<Rightarrow> event list \<Rightarrow> bool" where
  "precedes a b [] = False"
| "precedes a b (e # es) =
     (if e = b then False else if e = a then b \<in> set es else precedes a b es)"

text \<open>The six lines of the module.\<close>

definition module_pins :: "pin set" where
  "module_pins = {gpioLED1, gpioLED2, gpioButtonA, gpioButtonB, gpioButtonC, gpioButtonD}"

subsection \<open>A reference run\<close>

text \<open>
  The module freshly loaded on an idle backend, and the state the initialisation leaves on
  the reference board. On that board button A is mapped to interrupt 168.
\<close>

definition fresh :: state where
  "fresh = module_loaded hw_idle"

definition running :: state where
  "running = snd (ebbgpio_init board fresh)"

section \<open>Properties\<close>

subsection \<open>What each statement changes\<close>

lemma kcall_fst [simp]: "fst (kcall P e s) = hw_result P e (hw s)"
  by (simp add: kcall_def)

lemma kcall_snd [simp]: "snd (kcall P e s) = kdo P e s"
  by (simp add: kdo_def)

lemma kdo_fields [simp]:
  "hw (kdo P e s) = hw_step P e (hw s)"
  "trace (kdo P e s) = trace s @ [e]"
  "irqNumberA (kdo P e s) = irqNumberA s"
  "irqNumberB (kdo P e s) = irqNumberB s"
  "irqNumberC (kdo P e s) = irqNumberC s"
  "irqNumberD (kdo P e s) = irqNumberD s"
  "numberPressesA (kdo P e s) = numberPressesA s"
  "numberPressesB (kdo P e s) = numberPressesB s"
  "numberPressesC (kdo P e s) = numberPressesC s"
  "numberPressesD (kdo P e s) = numberPressesD s"
  "led1On (kdo P e s) = led1On s"
  "led2On (kdo P e s) = led2On s"
  by (simp_all add: kdo_def kcall_def)

lemma printk_fields [simp]:
  "hw (printk fmt args s) = hw s"
  "trace (printk fmt args s) = trace s @ [Printk fmt args]"
  "irqNumberA (printk fmt args s) = irqNumberA s"
  "irqNumberB (printk fmt args s) = irqNumberB s"
  "irqNumberC (printk fmt args s) = irqNumberC s"
  "irqNumberD (printk fmt args s) = irqNumberD s"
  "numberPressesA (printk fmt args s) = numberPressesA s"
  "numberPressesB (printk fmt args s) = numberPressesB s"
  "numberPressesC (printk fmt args s) = numberPressesC s"
  "numberPressesD (printk fmt args s) = numberPressesD s"
  "led1On (printk fmt args s) = led1On s"
  "led2On (printk fmt args s) = led2On s"
  by (simp_all add: printk_def)

lemma set_led1On_fields [simp]:
  "hw (set_led1On v s) = hw s"
  "trace (set_led1On v s) = trace s @ [StoreLed LED1 v]"
  "irqNumberA (set_led1On v s) = irqNumberA s"
  "irqNumberB (set_led1On v s) = irqNumberB s"
  "irqNumberC (set_led1On v s) = irqNumberC s"
  "irqNumberD (set_led1On v s) = irqNumberD s"
  "numberPressesA (set_led1On v s) = numberPressesA s"
  "numberPressesB (set_led1On v s) = numberPressesB s"
  "numberPressesC (set_led1On v s) = numberPressesC s"
  "numberPressesD (set_led1On v s) = numberPressesD s"
  "led1On (set_led1On v s) = v"
  "led2On (set_led1On v s) = led2On s"
  by (simp_all add: set_led1On_def)

lemma set_led2On_fields [simp]:
  "hw (set_led2On v s) = hw s"
  "trace (set_led2On v s) = trace s @ [StoreLed LED2 v]"
  "irqNumberA (set_led2On v s) = irqNumberA s"
  "irqNumberB (set_led2On v s) = irqNumberB s"
  "irqNumberC (set_led2On v s) = irqNumberC s"
  "irqNumberD (set_led2On v s) = irqNumberD s"
  "numberPressesA (set_led2On v s) = numberPressesA s"
  "numberPressesB (set_led2On v s) = numberPressesB s"
  "numberPressesC (set_led2On v s) = numberPressesC s"
  "numberPressesD (set_led2On v s) = numberPressesD s"
  "led1On (set_led2On v s) = led1On s"
  "led2On (set_led2On v s) = v"
  by (simp_all add: set_led2On_def)

lemma set_irqNumberA_fields [simp]:
  "hw (set_irqNumberA v s) = hw s"
  "trace (set_irqNumberA v s) = trace s @ [StoreIrq ButtonA v]"
  "irqNumberA (set_irqNumberA v s) = v"
  "irqNumberB (set_irqNumberA v s) = irqNumberB s"
  "irqNumberC (set_irqNumberA v s) = irqNumberC s"
  "irqNumberD (set_irqNumberA v s) = irqNumberD s"
  "numberPressesA (set_irqNumberA v s) = numberPressesA s"
  "numberPressesB (set_irqNumberA v s) = numberPressesB s"
  "numberPressesC (set_irqNumberA v s) = numberPressesC s"
  "numberPressesD (set_irqNumberA v s) = numberPressesD s"
  "led1On (set_irqNumberA v s) = led1On s"
  "led2On (set_irqNumberA v s) = led2On s"
  by (simp_all add: set_irqNumberA_def)

lemma set_irqNumberB_fields [simp]:
  "hw (set_irqNumberB v s) = hw s"
  "trace (set_irqNumberB v s) = trace s @ [StoreIrq ButtonB v]"
  "irqNumberA (set_irqNumberB v s) = irqNumberA s"
  "irqNumberB (set_irqNumberB v s) = v"
  "irqNumberC (set_irqNumberB v s) = irqNumberC s"
  "irqNumberD (set_irqNumberB v s) = irqNumberD s"
  "numberPressesA (set_irqNumberB v s) = numberPressesA s"
  "numberPressesB (set_irqNumberB v s) = numberPressesB s"
  "numberPressesC (set_irqNumberB v s) = numberPressesC s"
  "numberPressesD (set_irqNumberB v s) = numberPressesD s"
  "led1On (set_irqNumberB v s) = led1On s"
  "led2On (set_irqNumberB v s) = led2On s"
  by (simp_all add: set_irqNumberB_def)

lemma set_irqNumberC_fields [simp]:
  "hw (set_irqNumberC v s) = hw s"
  "trace (set_irqNumberC v s) = trace s @ [StoreIrq ButtonC v]"
  "irqNumberA (set_irqNumberC v s) = irqNumberA s"
  "irqNumberB (set_irqNumberC v s) = irqNumberB s"
  "irqNumberC (set_irqNumberC v s) = v"
  "irqNumberD (set_irqNumberC v s) = irqNumberD s"
  "numberPressesA (set_irqNumberC v s) = numberPressesA s"
  "numberPressesB (set_irqNumberC v s) = numberPressesB s"
  "numberPressesC (set_irqNumberC v s) = numberPressesC s"
  "numberPressesD (set_irqNumberC v s) = numberPressesD s"
  "led1On (set_irqNumberC v s) = led1On s"
  "led2On (set_irqNumberC v s) = led2On s"
  by (simp_all add: set_irqNumberC_def)

lemma set_irqNumberD_fields [simp]:
  "hw (set_irqNumberD v s) = hw s"
  "trace (set_irqNumberD v s) = trace s @ [StoreIrq ButtonD v]"
  "irqNumberA (set_irqNumberD v s) = irqNumberA s"
  "irqNumberB (set_irqNumberD v s) = irqNumberB s"
  "irqNumberC (set_irqNumberD v s) = irqNumberC s"
  "irqNumberD (set_irqNumberD v s) = v"
  "numberPressesA (set_irqNumberD v s) = numberPressesA s"
  "numberPressesB (set_irqNumberD v s) = numberPressesB s"
  "numberPressesC (set_irqNumberD v s) = numberPressesC s"
  "numberPressesD (set_irqNumberD v s) = numberPressesD s"
  "led1On (set_irqNumberD v s) = led1On s"
  "led2On (set_irqNumberD v s) = led2On s"
  by (simp_all add: set_irqNumberD_def)

lemma inc_numberPressesA_fields [simp]:
  "hw (inc_numberPressesA s) = hw s"
  "trace (inc_numberPressesA s) = trace s @ [StoreCounter ButtonA (numberPressesA s + 1)]"
  "irqNumberA (inc_numberPressesA s) = irqNumberA s"
  "irqNumberB (inc_numberPressesA s) = irqNumberB s"
  "irqNumberC (inc_numberPressesA s) = irqNumberC s"
  "irqNumberD (inc_numberPressesA s) = irqNumberD s"
  "numberPressesA (inc_numberPressesA s) = numberPressesA s + 1"
  "numberPressesB (inc_numberPressesA s) = numberPressesB s"
  "numberPressesC (inc_numberPressesA s) = numberPressesC s"
  "numberPressesD (inc_numberPressesA s) = numberPressesD s"
  "led1On (inc_numberPressesA s) = led1On s"
  "led2On (inc_numberPressesA s) = led2On s"
  by (simp_all add: inc_numberPressesA_def)

lemma inc_numberPressesB_fields [simp]:
  "hw (inc_numberPressesB s) = hw s"
  "trace (inc_numberPressesB s) = trace s @ [StoreCounter ButtonB (numberPressesB s + 1)]"
  "irqNumberA (inc_numberPressesB s) = irqNumberA s"
  "irqNumberB (inc_numberPressesB s) = irqNumberB s"
  "irqNumberC (inc_numberPressesB s) = irqNumberC s"
  "irqNumberD (inc_numberPressesB s) = irqNumberD s"
  "numberPressesA (inc_numberPressesB s) = numberPressesA s"
  "numberPressesB (inc_numberPressesB s) = numberPressesB s + 1"
  "numberPressesC (inc_numberPressesB s) = numberPressesC s"
  "numberPressesD (inc_numberPressesB s) = numberPressesD s"
  "led1On (inc_numberPressesB s) = led1On s"
  "led2On (inc_numberPressesB s) = led2On s"
  by (simp_all add: inc_numberPressesB_def)

lemma inc_numberPressesC_fields [simp]:
  "hw (inc_numberPressesC s) = hw s"
  "trace (inc_numberPressesC s) = trace s @ [StoreCounter ButtonC (numberPressesC s + 1)]"
  "irqNumberA (inc_numberPressesC s) = irqNumberA s"
  "irqNumberB (inc_numberPressesC s) = irqNumberB s"
  "irqNumberC (inc_numberPressesC s) = irqNumberC s"
  "irqNumberD (inc_numberPressesC s) = irqNumberD s"
  "numberPressesA (inc_numberPressesC s) = numberPressesA s"
  "numberPressesB (inc_numberPressesC s) = numberPressesB s"
  "numberPressesC (inc_numberPressesC s) = numberPressesC s + 1"
  "numberPressesD (inc_numberPressesC s) = numberPressesD s"
  "led1On (inc_numberPressesC s) = led1On s"
  "led2On (inc_numberPressesC s) = led2On s"
  by (simp_all add: inc_numberPressesC_def)

lemma inc_numberPressesD_fields [simp]:
  "hw (inc_numberPressesD s) = hw s"
  "trace (inc_numberPressesD s) = trace s @ [StoreCounter ButtonD (numberPressesD s + 1)]"
  "irqNumberA (inc_numberPressesD s) = irqNumberA s"
  "irqNumberB (inc_numberPressesD s) = irqNumberB s"
  "irqNumberC (inc_numberPressesD s) = irqNumberC s"
  "irqNumberD (inc_numberPressesD s) = irqNumberD s"
  "numberPressesA (inc_numberPressesD s) = numberPressesA s"
  "numberPressesB (inc_numberPressesD s) = numberPressesB s"
  "numberPressesC (inc_numberPressesD s) = numberPressesC s"
  "numberPressesD (inc_numberPressesD s) = numberPressesD s + 1"
  "led1On (inc_numberPressesD s) = led1On s"
  "led2On (inc_numberPressesD s) = led2On s"
  by (simp_all add: inc_numberPressesD_def)

lemma gpio_get_value_frame [simp]:
  "gpio_get_value (printk fmt args s) p = gpio_get_value s p"
  "gpio_get_value (set_led1On v s) p = gpio_get_value s p"
  "gpio_get_value (set_led2On v s) p = gpio_get_value s p"
  by (simp_all add: gpio_get_value_def)

subsection \<open>What each kernel call changes in the backend\<close>

lemma requested_hw_step:
  "requested (hw_step P e h) =
     (case e of
        GpioRequest p l \<Rightarrow> if gpio_valid P p then insert p (requested h) else requested h
      | GpioFree p \<Rightarrow> requested h - {p}
      | _ \<Rightarrow> requested h)"
  by (cases e) auto

lemma level_hw_step:
  "level (hw_step P e h) =
     (case e of
        GpioDirectionOutput p v \<Rightarrow> if gpio_valid P p then (level h)(p := v) else level h
      | GpioSetValue p v \<Rightarrow> if gpio_valid P p then (level h)(p := v) else level h
      | _ \<Rightarrow> level h)"
  by (cases e) auto

lemma bound_hw_step:
  "bound (hw_step P e h) =
     (case e of
        RequestIrq n b \<Rightarrow>
          if irq_reject P n = 0 \<and> bound h n = None then (bound h)(n \<mapsto> b) else bound h
      | FreeIrq n \<Rightarrow> (bound h)(n := None)
      | _ \<Rightarrow> bound h)"
  by (cases e) auto

lemma exported_hw_step:
  "exported (hw_step P e h) =
     (case e of
        GpioExport p c \<Rightarrow> if p \<in> requested h then insert p (exported h) else exported h
      | GpioUnexport p \<Rightarrow> exported h - {p}
      | GpioFree p \<Rightarrow> exported h - {p}
      | _ \<Rightarrow> exported h)"
  by (cases e) auto

declare hw_step.simps [simp del]

subsection \<open>The blocks of the initialisation\<close>

lemma init_leds_statics [simp]:
  "irqNumberA (init_leds P s) = irqNumberA s"
  "irqNumberB (init_leds P s) = irqNumberB s"
  "irqNumberC (init_leds P s) = irqNumberC s"
  "irqNumberD (init_leds P s) = irqNumberD s"
  "numberPressesA (init_leds P s) = numberPressesA s"
  "numberPressesB (init_leds P s) = numberPressesB s"
  "numberPressesC (init_leds P s) = numberPressesC s"
  "numberPressesD (init_leds P s) = numberPressesD s"
  "led1On (init_leds P s) = True"
  "led2On (init_leds P s) = True"
  by (simp_all add: init_leds_def Let_def)

lemma init_leds_trace [simp]:
  "trace (init_leds P s) = trace s @
     [StoreLed LED1 True, StoreLed LED2 True,
      GpioRequest gpioLED1 ''sysfs'', GpioRequest gpioLED2 ''sysfs'',
      GpioDirectionOutput gpioLED1 True, GpioDirectionOutput gpioLED2 True,
      GpioExport gpioLED1 False, GpioExport gpioLED2 False]"
  by (simp add: init_leds_def Let_def)

lemma init_leds_hw:
  "hw (init_leds P s) =
     hw_step P (GpioExport gpioLED2 False) (hw_step P (GpioExport gpioLED1 False)
      (hw_step P (GpioDirectionOutput gpioLED2 True) (hw_step P (GpioDirectionOutput gpioLED1 True)
       (hw_step P (GpioRequest gpioLED2 ''sysfs'') (hw_step P (GpioRequest gpioLED1 ''sysfs'')
        (hw s))))))"
  by (simp add: init_leds_def Let_def)

lemma init_buttons_statics [simp]:
  "irqNumberA (init_buttons P s) = irqNumberA s"
  "irqNumberB (init_buttons P s) = irqNumberB s"
  "irqNumberC (init_buttons P s) = irqNumberC s"
  "irqNumberD (init_buttons P s) = irqNumberD s"
  "numberPressesA (init_buttons P s) = numberPressesA s"
  "numberPressesB (init_buttons P s) = numberPressesB s"
  "numberPressesC (init_buttons P s) = numberPressesC s"
  "numberPressesD (init_buttons P s) = numberPressesD s"
  "led1On (init_buttons P s) = led1On s"
  "led2On (init_buttons P s) = led2On s"
  by (simp_all add: init_buttons_def Let_def)

lemma init_buttons_trace [simp]:
  "trace (init_buttons P s) = trace s @
     [GpioRequest gpioButtonA ''sysfs'', GpioDirectionInput gpioButtonA,
      GpioSetDebounce gpioButtonA 200,
      GpioRequest gpioButtonB ''sysfs'', GpioDirectionInput gpioButtonB,
      GpioSetDebounce gpioButtonB 200,
      GpioRequest gpioButtonC ''sysfs'', GpioDirectionInput gpioButtonC,
      GpioSetDebounce gpioButtonC 200,
      GpioRequest gpioButtonD ''sysfs'', GpioDirectionInput gpioButtonD,
      GpioSetDebounce gpioButtonD 200]"
  by (simp add: init_buttons_def Let_def)

lemma init_buttons_hw:
  "hw (init_buttons P s) =
     hw_step P (GpioSetDebounce gpioButtonD 200) (hw_step P (GpioDirectionInput gpioButtonD)
      (hw_step P (GpioRequest gpioButtonD ''sysfs'')
     (hw_step P (GpioSetDebounce gpioButtonC 200) (hw_step P (GpioDirectionInput gpioButtonC)
      (hw_step P (GpioRequest gpioButtonC ''sysfs'')
     (hw_step P (GpioSetDebounce gpioButtonB 200) (hw_step P (GpioDirectionInput gpioButtonB)
      (hw_step P (GpioRequest gpioButtonB ''sysfs'')
     (hw_step P (GpioSetDebounce gpioButtonA 200) (hw_step P (GpioDirectionInput gpioButtonA)
      (hw_step P (GpioRequest gpioButtonA ''sysfs'') (hw s))))))))))))"
  by (simp add: init_buttons_def Let_def)

lemma init_report_statics [simp]:
  "irqNumberA (init_report P s) = gpio_to_irq P gpioButtonA"
  "irqNumberB (init_report P s) = gpio_to_irq P gpioButtonB"
  "irqNumberC (init_report P s) = gpio_to_irq P gpioButtonC"
  "irqNumberD (init_report P s) = gpio_to_irq P gpioButtonD"
  "numberPressesA (init_report P s) = numberPressesA s"
  "numberPressesB (init_report P s) = numberPressesB s"
  "numberPressesC (init_report P s) = numberPressesC s"
  "numberPressesD (init_report P s) = numberPressesD s"
  "led1On (init_report P s) = led1On s"
  "led2On (init_report P s) = led2On s"
  by (simp_all add: init_report_def Let_def)

lemma init_report_hw [simp]: "hw (init_report P s) = hw s"
  by (simp add: init_report_def Let_def)

lemma init_report_trace [simp]:
  "trace (init_report P s) = trace s @
     [Printk ''GPIO_TEST: The button A state is currently: %d'' [I (gpio_get_value s gpioButtonA)],
      Printk ''GPIO_TEST: The button B state is currently: %d'' [I (gpio_get_value s gpioButtonB)],
      Printk ''GPIO_TEST: The button C state is currently: %d'' [I (gpio_get_value s gpioButtonC)],
      Printk ''GPIO_TEST: The button D state is currently: %d'' [I (gpio_get_value s gpioButtonD)],
      StoreIrq ButtonA (gpio_to_irq P gpioButtonA),
      Printk ''GPIO_TEST: The button A is mapped to IRQ: %d'' [U (gpio_to_irq P gpioButtonA)],
      StoreIrq ButtonB (gpio_to_irq P gpioButtonB),
      Printk ''GPIO_TEST: The button B is mapped to IRQ: %d'' [U (gpio_to_irq P gpioButtonB)],
      StoreIrq ButtonC (gpio_to_irq P gpioButtonC),
      Printk ''GPIO_TEST: The button C is mapped to IRQ: %d'' [U (gpio_to_irq P gpioButtonC)],
      StoreIrq ButtonD (gpio_to_irq P gpioButtonD),
      Printk ''GPIO_TEST: The button D is mapped to IRQ: %d'' [U (gpio_to_irq P gpioButtonD)]]"
  by (simp add: init_report_def Let_def)

lemma init_request_irqs_fst [simp]:
  "fst (init_request_irqs P s) = hw_result P (RequestIrq (irqNumberA s) ButtonA) (hw s)"
  by (simp add: init_request_irqs_def Let_def split_def)

lemma init_request_irqs_statics [simp]:
  "irqNumberA (snd (init_request_irqs P s)) = irqNumberA s"
  "irqNumberB (snd (init_request_irqs P s)) = irqNumberB s"
  "irqNumberC (snd (init_request_irqs P s)) = irqNumberC s"
  "irqNumberD (snd (init_request_irqs P s)) = irqNumberD s"
  "numberPressesA (snd (init_request_irqs P s)) = numberPressesA s"
  "numberPressesB (snd (init_request_irqs P s)) = numberPressesB s"
  "numberPressesC (snd (init_request_irqs P s)) = numberPressesC s"
  "numberPressesD (snd (init_request_irqs P s)) = numberPressesD s"
  "led1On (snd (init_request_irqs P s)) = led1On s"
  "led2On (snd (init_request_irqs P s)) = led2On s"
  by (simp_all add: init_request_irqs_def Let_def split_def)

lemma init_request_irqs_trace [simp]:
  "trace (snd (init_request_irqs P s)) = trace s @
     [RequestIrq (irqNumberA s) ButtonA, RequestIrq (irqNumberB s) ButtonB,
      RequestIrq (irqNumberC s) ButtonC, RequestIrq (irqNumberD s) ButtonD,
      Printk ''GPIO_TEST: The interrupt request result is: %d''
        [I (hw_result P (RequestIrq (irqNumberA s) ButtonA) (hw s))]]"
  by (simp add: init_request_irqs_def Let_def split_def)

lemma init_request_irqs_hw:
  "hw (snd (init_request_irqs P s)) =
     hw_step P (RequestIrq (irqNumberD s) ButtonD) (hw_step P (RequestIrq (irqNumberC s) ButtonC)
      (hw_step P (RequestIrq (irqNumberB s) ButtonB) (hw_step P (RequestIrq (irqNumberA s) ButtonA)
       (hw s))))"
  by (simp add: init_request_irqs_def Let_def split_def)

subsection \<open>The initialisation as a whole\<close>

lemma ebbgpio_init_invalid1:
  "\<not> gpio_valid P gpioLED1 \<Longrightarrow>
   ebbgpio_init P s =
     (- ENODEV, printk ''GPIO_TEST: invalid LED 1 GPIO'' []
                 (printk ''GPIO_TEST: Initializing the GPIO_TEST LKM'' [] s))"
  by (simp add: ebbgpio_init_def gpio_is_valid_def Let_def)

lemma ebbgpio_init_invalid2:
  "gpio_valid P gpioLED1 \<Longrightarrow> \<not> gpio_valid P gpioLED2 \<Longrightarrow>
   ebbgpio_init P s =
     (- ENODEV, printk ''GPIO_TEST: invalid LED 2 GPIO'' []
                 (printk ''GPIO_TEST: Initializing the GPIO_TEST LKM'' [] s))"
  by (simp add: ebbgpio_init_def gpio_is_valid_def Let_def)

lemma ebbgpio_init_valid:
  "gpio_valid P gpioLED1 \<Longrightarrow> gpio_valid P gpioLED2 \<Longrightarrow>
   ebbgpio_init P s =
     init_request_irqs P (init_report P (init_buttons P (init_leds P
       (printk ''GPIO_TEST: Initializing the GPIO_TEST LKM'' [] s))))"
  by (simp add: ebbgpio_init_def gpio_is_valid_def Let_def)

lemma ebbgpio_init_success_valid:
  "fst (ebbgpio_init P s) = 0 \<Longrightarrow> gpio_valid P gpioLED1 \<and> gpio_valid P gpioLED2"
  by (auto simp add: ebbgpio_init_def gpio_is_valid_def Let_def ENODEV_def split: if_splits)

lemma level_init_buttons: "level (hw (init_buttons P s)) = level (hw s)"
  by (simp add: init_buttons_hw level_hw_step)

lemma level_init_request_irqs: "level (hw (snd (init_request_irqs P s))) = level (hw s)"
  by (simp add: init_request_irqs_hw level_hw_step)

lemma level_init_leds:
  "gpio_valid P gpioLED1 \<Longrightarrow> gpio_valid P gpioLED2 \<Longrightarrow>
   level (hw (init_leds P s)) = (level (hw s))(gpioLED1 := True, gpioLED2 := True)"
  by (simp add: init_leds_hw level_hw_step)

lemma requested_init_leds:
  "gpio_valid P gpioLED1 \<Longrightarrow> gpio_valid P gpioLED2 \<Longrightarrow>
   requested (hw (init_leds P s)) = insert gpioLED2 (insert gpioLED1 (requested (hw s)))"
  by (simp add: init_leds_hw requested_hw_step)

lemma requested_init_buttons:
  "requested (hw (init_buttons P s)) \<subseteq>
     insert gpioButtonA (insert gpioButtonB (insert gpioButtonC (insert gpioButtonD
       (requested (hw s)))))"
  by (auto simp add: init_buttons_hw requested_hw_step split: if_splits)

lemma requested_init_request_irqs:
  "requested (hw (snd (init_request_irqs P s))) = requested (hw s)"
  by (simp add: init_request_irqs_hw requested_hw_step)

subsection \<open>The cleanup\<close>

lemma ebbgpio_exit_statics [simp]:
  "irqNumberA (ebbgpio_exit P s) = irqNumberA s"
  "irqNumberB (ebbgpio_exit P s) = irqNumberB s"
  "irqNumberC (ebbgpio_exit P s) = irqNumberC s"
  "irqNumberD (ebbgpio_exit P s) = irqNumberD s"
  "numberPressesA (ebbgpio_exit P s) = numberPressesA s"
  "numberPressesB (ebbgpio_exit P s) = numberPressesB s"
  "numberPressesC (ebbgpio_exit P s) = numberPressesC s"
  "numberPressesD (ebbgpio_exit P s) = numberPressesD s"
  "led1On (ebbgpio_exit P s) = led1On s"
  "led2On (ebbgpio_exit P s) = led2On s"
  by (simp_all add: ebbgpio_exit_def Let_def)

lemma ebbgpio_exit_hw:
  "hw (ebbgpio_exit P s) =
     hw_step P (GpioFree gpioButtonD) (hw_step P (GpioFree gpioButtonC)
      (hw_step P (GpioFree gpioButtonB) (hw_step P (GpioFree gpioButtonA)
       (hw_step P (GpioFree gpioLED2) (hw_step P (GpioFree gpioLED1)
     (hw_step P (GpioUnexport gpioButtonD) (hw_step P (FreeIrq (irqNumberD s))
      (hw_step P (GpioUnexport gpioButtonC) (hw_step P (FreeIrq (irqNumberC s))
       (hw_step P (GpioUnexport gpioButtonB) (hw_step P (FreeIrq (irqNumberB s))
        (hw_step P (GpioUnexport gpioButtonA) (hw_step P (FreeIrq (irqNumberA s))
     (hw_step P (GpioUnexport gpioLED2) (hw_step P (GpioUnexport gpioLED1)
      (hw_step P (GpioSetValue gpioLED2 False) (hw_step P (GpioSetValue gpioLED1 False)
       (hw s))))))))))))))))))"
  by (simp add: ebbgpio_exit_def Let_def)

lemma ebbgpio_exit_trace:
  "trace (ebbgpio_exit P s) = trace s @
     [Printk ''GPIO_TEST: The button state is currently: %d'' [I (gpio_get_value s gpioButtonD)],
      Printk ''GPIO_TEST: The button was pressed %d times'' [U (numberPressesD s)],
      GpioSetValue gpioLED1 False, GpioSetValue gpioLED2 False,
      GpioUnexport gpioLED1, GpioUnexport gpioLED2,
      FreeIrq (irqNumberA s), GpioUnexport gpioButtonA,
      FreeIrq (irqNumberB s), GpioUnexport gpioButtonB,
      FreeIrq (irqNumberC s), GpioUnexport gpioButtonC,
      FreeIrq (irqNumberD s), GpioUnexport gpioButtonD,
      GpioFree gpioLED1, GpioFree gpioLED2,
      GpioFree gpioButtonA, GpioFree gpioButtonB, GpioFree gpioButtonC, GpioFree gpioButtonD,
      Printk ''Button A has been pressed %d times.'' [U (numberPressesA s)],
      Printk ''Button B has been pressed %d times.'' [U (numberPressesB s)],
      Printk ''Button C has been pressed %d times.'' [U (numberPressesC s)],
      Printk ''Button D has been pressed %d times.'' [U (numberPressesD s)],
      Printk ''GPIO_TEST: Goodbye from the LKM!'' []]"
  by (simp add: ebbgpio_exit_def Let_def)

lemma pins_distinct:
  "distinct [gpioLED1, gpioLED2, gpioButtonA, gpioButtonB, gpioButtonC, gpioButtonD]"
  by (simp add: gpioLED1_def gpioLED2_def gpioButtonA_def gpioButtonB_def gpioButtonC_def
      gpioButtonD_def)

subsection \<open>The handlers\<close>

lemma ebbgpio_irq_handlerA_fst [simp]: "fst (ebbgpio_irq_handlerA P irq s) = IRQ_HANDLED"
  by (simp add: ebbgpio_irq_handlerA_def Let_def)

lemma ebbgpio_irq_handlerA_statics [simp]:
  "irqNumberA (snd (ebbgpio_irq_handlerA P irq s)) = irqNumberA s"
  "irqNumberB (snd (ebbgpio_irq_handlerA P irq s)) = irqNumberB s"
  "irqNumberC (snd (ebbgpio_irq_handlerA P irq s)) = irqNumberC s"
  "irqNumberD (snd (ebbgpio_irq_handlerA P irq s)) = irqNumberD s"
  "numberPressesA (snd (ebbgpio_irq_handlerA P irq s)) = numberPressesA s + 1"
  "numberPressesB (snd (ebbgpio_irq_handlerA P irq s)) = numberPressesB s"
  "numberPressesC (snd (ebbgpio_irq_handlerA P irq s)) = numberPressesC s"
  "numberPressesD (snd (ebbgpio_irq_handlerA P irq s)) = numberPressesD s"
  "led1On (snd (ebbgpio_irq_handlerA P irq s)) = True"
  "led2On (snd (ebbgpio_irq_handlerA P irq s)) = led2On s"
  by (simp_all add: ebbgpio_irq_handlerA_def Let_def)

lemma ebbgpio_irq_handlerA_hw [simp]:
  "hw (snd (ebbgpio_irq_handlerA P irq s)) = hw_step P (CallUsermodehelper argv1) (hw_step P (GpioSetValue gpioLED1 True) (hw s))"
  by (simp add: ebbgpio_irq_handlerA_def Let_def)

lemma ebbgpio_irq_handlerA_trace [simp]:
  "trace (snd (ebbgpio_irq_handlerA P irq s)) = trace s @
     [StoreLed LED1 True, GpioSetValue gpioLED1 True,
      Printk ''GPIO_TEST: Interrupt! (button A state is %d)''
        [I (gpio_get_value (kdo P (GpioSetValue gpioLED1 True) s) gpioButtonA)],
      CallUsermodehelper argv1, StoreCounter ButtonA (numberPressesA s + 1)]"
  by (simp add: ebbgpio_irq_handlerA_def Let_def gpio_get_value_def)

lemma ebbgpio_irq_handlerB_fst [simp]: "fst (ebbgpio_irq_handlerB P irq s) = IRQ_HANDLED"
  by (simp add: ebbgpio_irq_handlerB_def Let_def)

lemma ebbgpio_irq_handlerB_statics [simp]:
  "irqNumberA (snd (ebbgpio_irq_handlerB P irq s)) = irqNumberA s"
  "irqNumberB (snd (ebbgpio_irq_handlerB P irq s)) = irqNumberB s"
  "irqNumberC (snd (ebbgpio_irq_handlerB P irq s)) = irqNumberC s"
  "irqNumberD (snd (ebbgpio_irq_handlerB P irq s)) = irqNumberD s"
  "numberPressesA (snd (ebbgpio_irq_handlerB P irq s)) = numberPressesA s"
  "numberPressesB (snd (ebbgpio_irq_handlerB P irq s)) = numberPressesB s + 1"
  "numberPressesC (snd (ebbgpio_irq_handlerB P irq s)) = numberPressesC s"
  "numberPressesD (snd (ebbgpio_irq_handlerB P irq s)) = numberPressesD s"
  "led1On (snd (ebbgpio_irq_handlerB P irq s)) = False"
  "led2On (snd (ebbgpio_irq_handlerB P irq s)) = led2On s"
  by (simp_all add: ebbgpio_irq_handlerB_def Let_def)

lemma ebbgpio_irq_handlerB_hw [simp]:
  "hw (snd (ebbgpio_irq_handlerB P irq s)) = hw_step P (CallUsermodehelper argv2) (hw_step P (GpioSetValue gpioLED1 False) (hw s))"
  by (simp add: ebbgpio_irq_handlerB_def Let_def)

lemma ebbgpio_irq_handlerB_trace [simp]:
  "trace (snd (ebbgpio_irq_handlerB P irq s)) = trace s @
     [StoreLed LED1 False, GpioSetValue gpioLED1 False,
      Printk ''GPIO_TEST: Interrupt! (button B state is %d)''
        [I (gpio_get_value (kdo P (GpioSetValue gpioLED1 False) s) gpioButtonB)],
      CallUsermodehelper argv2, StoreCounter ButtonB (numberPressesB s + 1)]"
  by (simp add: ebbgpio_irq_handlerB_def Let_def gpio_get_value_def)

lemma ebbgpio_irq_handlerC_fst [simp]: "fst (ebbgpio_irq_handlerC P irq s) = IRQ_HANDLED"
  by (simp add: ebbgpio_irq_handlerC_def Let_def)

lemma ebbgpio_irq_handlerC_statics [simp]:
  "irqNumberA (snd (ebbgpio_irq_handlerC P irq s)) = irqNumberA s"
  "irqNumberB (snd (ebbgpio_irq_handlerC P irq s)) = irqNumberB s"
  "irqNumberC (snd (ebbgpio_irq_handlerC P irq s)) = irqNumberC s"
  "irqNumberD (snd (ebbgpio_irq_handlerC P irq s)) = irqNumberD s"
  "numberPressesA (snd (ebbgpio_irq_handlerC P irq s)) = numberPressesA s"
  "numberPressesB (snd (ebbgpio_irq_handlerC P irq s)) = numberPressesB s"
  "numberPressesC (snd (ebbgpio_irq_handlerC P irq s)) = numberPressesC s + 1"
  "numberPressesD (snd (ebbgpio_irq_handlerC P irq s)) = numberPressesD s"
  "led1On (snd (ebbgpio_irq_handlerC P irq s)) = led1On s"
  "led2On (snd (ebbgpio_irq_handlerC P irq s)) = True"
  by (simp_all add: ebbgpio_irq_handlerC_def Let_def)

lemma ebbgpio_irq_handlerC_hw [simp]:
  "hw (snd (ebbgpio_irq_handlerC P irq s)) = hw_step P (CallUsermodehelper argv3) (hw_step P (GpioSetValue gpioLED2 True) (hw s))"
  by (simp add: ebbgpio_irq_handlerC_def Let_def)

lemma ebbgpio_irq_handlerC_trace [simp]:
  "trace (snd (ebbgpio_irq_handlerC P irq s)) = trace s @
     [StoreLed LED2 True, GpioSetValue gpioLED2 True,
      Printk ''GPIO_TEST: Interrupt! (button C state is %d)''
        [I (gpio_get_value (kdo P (GpioSetValue gpioLED2 True) s) gpioButtonC)],
      CallUsermodehelper argv3, StoreCounter ButtonC (numberPressesC s + 1)]"
  by (simp add: ebbgpio_irq_handlerC_def Let_def gpio_get_value_def)

lemma ebbgpio_irq_handlerD_fst [simp]: "fst (ebbgpio_irq_handlerD P irq s) = IRQ_HANDLED"
  by (simp add: ebbgpio_irq_handlerD_def Let_def)

lemma ebbgpio_irq_handlerD_statics [simp]:
  "irqNumberA (snd (ebbgpio_irq_handlerD P irq s)) = irqNumberA s"
  "irqNumberB (snd (ebbgpio_irq_handlerD P irq s)) = irqNumberB s"
  "irqNumberC (snd (ebbgpio_irq_handlerD P irq s)) = irqNumberC s"
  "irqNumberD (snd (ebbgpio_irq_handlerD P irq s)) = irqNumberD s"
  "numberPressesA (snd (ebbgpio_irq_handlerD P irq s)) = numberPressesA s"
  "numberPressesB (snd (ebbgpio_irq_handlerD P irq s)) = numberPressesB s"
  "numberPressesC (snd (ebbgpio_irq_handlerD P irq s)) = numberPressesC s"
  "numberPressesD (snd (ebbgpio_irq_handlerD P irq s)) = numberPressesD s + 1"
  "led1On (snd (ebbgpio_irq_handlerD P irq s)) = led1On s"
  "led2On (snd (ebbgpio_irq_handlerD P irq s)) = False"
  by (simp_all add: ebbgpio_irq_handlerD_def Let_def)

lemma ebbgpio_irq_handlerD_hw [simp]:
  "hw (snd (ebbgpio_irq_handlerD P irq s)) = hw_step P (CallUsermodehelper argv4) (hw_step P (GpioSetValue gpioLED2 False) (hw s))"
  by (simp add: ebbgpio_irq_handlerD_def Let_def)

lemma ebbgpio_irq_handlerD_trace [simp]:
  "trace (snd (ebbgpio_irq_handlerD P irq s)) = trace s @
     [StoreLed LED2 False, GpioSetValue gpioLED2 False,
      Printk ''GPIO_TEST: Interrupt! (button D state is %d)''
        [I (gpio_get_value (kdo P (GpioSetValue gpioLED2 False) s) gpioButtonD)],
      CallUsermodehelper argv4, StoreCounter ButtonD (numberPressesD s + 1)]"
  by (simp add: ebbgpio_irq_handlerD_def Let_def gpio_get_value_def)

subsection \<open>Auxiliary facts\<close>

lemmas pin_defs =
  gpioLED1_def gpioLED2_def gpioButtonA_def gpioButtonB_def gpioButtonC_def gpioButtonD_def

lemma bound_init_leds: "bound (hw (init_leds P s)) = bound (hw s)"
  by (simp add: init_leds_hw bound_hw_step)

lemma bound_init_buttons: "bound (hw (init_buttons P s)) = bound (hw s)"
  by (simp add: init_buttons_hw bound_hw_step)

lemma requested_init_buttons_valid:
  "gpio_valid P gpioButtonA \<Longrightarrow> gpio_valid P gpioButtonB \<Longrightarrow>
   gpio_valid P gpioButtonC \<Longrightarrow> gpio_valid P gpioButtonD \<Longrightarrow>
   requested (hw (init_buttons P s)) =
     insert gpioButtonD (insert gpioButtonC (insert gpioButtonB (insert gpioButtonA
       (requested (hw s)))))"
  by (simp add: init_buttons_hw requested_hw_step)

lemma unat_inc: "(n :: u32) \<noteq> - 1 \<Longrightarrow> unat (n + 1) = unat n + 1"
  using unatSuc [of n] by (simp add: add.commute add_eq_0_iff)





lemma board_valid:
  "gpio_valid board gpioLED1" "gpio_valid board gpioLED2"
  "gpio_valid board gpioButtonA" "gpio_valid board gpioButtonB"
  "gpio_valid board gpioButtonC" "gpio_valid board gpioButtonD"
  by (simp_all add: board_def pin_defs)

lemma board_accepts: "irq_reject board n = 0"
  by (simp add: board_def)

lemma board_irqs:
  "gpio_to_irq board gpioButtonA = 168" "gpio_to_irq board gpioButtonB = 167"
  "gpio_to_irq board gpioButtonC = 183" "gpio_to_irq board gpioButtonD = 184"
  by (simp_all add: gpio_to_irq_def board_def pin_defs)

lemma fresh_fields:
  "numberPressesA fresh = 0" "numberPressesB fresh = 0"
  "numberPressesC fresh = 0" "numberPressesD fresh = 0"
  "led1On fresh = False" "led2On fresh = False"
  "trace fresh = []"
  "requested (hw fresh) = {}" "bound (hw fresh) = Map.empty" "level (hw fresh) = (\<lambda>p. False)"
  by (simp_all add: fresh_def module_loaded_def hw_idle_def)

lemma running_eq:
  "ebbgpio_init board fresh =
     init_request_irqs board (init_report board (init_buttons board (init_leds board
       (printk ''GPIO_TEST: Initializing the GPIO_TEST LKM'' [] fresh))))"
  by (rule ebbgpio_init_valid) (rule board_valid)+

lemma running_result: "fst (ebbgpio_init board fresh) = 0"
  by (simp add: running_eq bound_init_leds bound_init_buttons board_accepts fresh_fields)

lemma running_statics:
  "numberPressesA running = 0" "numberPressesB running = 0"
  "numberPressesC running = 0" "numberPressesD running = 0"
  "led1On running" "led2On running"
  "irqNumberA running = 168" "irqNumberB running = 167"
  "irqNumberC running = 183" "irqNumberD running = 184"
  by (simp_all add: running_def running_eq fresh_fields board_irqs)

lemma running_level: "level (hw running) = (\<lambda>p. False)(gpioLED1 := True, gpioLED2 := True)"
  by (simp add: running_def running_eq level_init_request_irqs level_init_buttons
      level_init_leds board_valid fresh_fields)

lemma running_requested: "requested (hw running) = module_pins"
  by (simp add: running_def running_eq requested_init_request_irqs requested_init_buttons_valid
      requested_init_leds board_valid fresh_fields module_pins_def insert_commute)


text \<open>
  The line table holds lines of the module only: the initialisation keeps it so, whether
  it succeeds or not, and no handler changes the table.
\<close>

lemma requested_ebbgpio_init:
  assumes "requested (hw s) \<subseteq> module_pins"
  shows "requested (hw (snd (ebbgpio_init P s))) \<subseteq> module_pins"
proof (cases "gpio_valid P gpioLED1 \<and> gpio_valid P gpioLED2")
  case True
  then have v: "gpio_valid P gpioLED1" "gpio_valid P gpioLED2" by simp_all
  let ?s = "init_leds P (printk ''GPIO_TEST: Initializing the GPIO_TEST LKM'' [] s)"
  have "requested (hw ?s) \<subseteq> module_pins"
    using assms by (simp add: requested_init_leds [OF v] module_pins_def)
  moreover have "requested (hw (init_buttons P ?s)) \<subseteq>
      insert gpioButtonA (insert gpioButtonB (insert gpioButtonC (insert gpioButtonD
        (requested (hw ?s)))))"
    by (rule requested_init_buttons)
  ultimately have "requested (hw (init_buttons P ?s)) \<subseteq> module_pins"
    by (auto simp add: module_pins_def)
  then show ?thesis
    by (simp add: ebbgpio_init_valid [OF v] requested_init_request_irqs)
next
  case False
  then have "hw (snd (ebbgpio_init P s)) = hw s"
    by (auto simp add: ebbgpio_init_def gpio_is_valid_def Let_def)
  with assms show ?thesis by simp
qed

lemma requested_handler: "requested (hw (snd (handler b P irq s))) = requested (hw s)"
  by (cases b) (simp_all add: requested_hw_step)

subsection \<open>The cleanup and the interrupts\<close>

text \<open>
  The two parts of the cleanup compose to the whole. Run without an interrupt in between,
  from a state whose line table holds lines of the module only and on a platform that has
  the two LED lines, the cleanup leaves both LED lines off, the table empty and the four
  counters in the log.
\<close>

lemma exit_split: "ebbgpio_exit P s = exit_release P (exit_leds_off P s)"
  by (simp add: ebbgpio_exit_def exit_release_def exit_leds_off_def Let_def)

lemma exit_leds_off_hw:
  "hw (exit_leds_off P s) =
     hw_step P (GpioSetValue gpioLED2 False) (hw_step P (GpioSetValue gpioLED1 False) (hw s))"
  by (simp add: exit_leds_off_def Let_def)

lemma exit_leds_off_statics [simp]:
  "irqNumberA (exit_leds_off P s) = irqNumberA s"
  "irqNumberB (exit_leds_off P s) = irqNumberB s"
  "irqNumberC (exit_leds_off P s) = irqNumberC s"
  "irqNumberD (exit_leds_off P s) = irqNumberD s"
  "numberPressesA (exit_leds_off P s) = numberPressesA s"
  "numberPressesB (exit_leds_off P s) = numberPressesB s"
  "numberPressesC (exit_leds_off P s) = numberPressesC s"
  "numberPressesD (exit_leds_off P s) = numberPressesD s"
  "led1On (exit_leds_off P s) = led1On s"
  "led2On (exit_leds_off P s) = led2On s"
  by (simp_all add: exit_leds_off_def Let_def)

lemma exit_release_hw:
  "hw (exit_release P s) =
     hw_step P (GpioFree gpioButtonD) (hw_step P (GpioFree gpioButtonC)
      (hw_step P (GpioFree gpioButtonB) (hw_step P (GpioFree gpioButtonA)
       (hw_step P (GpioFree gpioLED2) (hw_step P (GpioFree gpioLED1)
     (hw_step P (GpioUnexport gpioButtonD) (hw_step P (FreeIrq (irqNumberD s))
      (hw_step P (GpioUnexport gpioButtonC) (hw_step P (FreeIrq (irqNumberC s))
       (hw_step P (GpioUnexport gpioButtonB) (hw_step P (FreeIrq (irqNumberB s))
        (hw_step P (GpioUnexport gpioButtonA) (hw_step P (FreeIrq (irqNumberA s))
     (hw_step P (GpioUnexport gpioLED2) (hw_step P (GpioUnexport gpioLED1)
       (hw s))))))))))))))))"
  by (simp add: exit_release_def Let_def)

lemma exit_release_trace:
  "trace (exit_release P s) = trace s @
     [GpioUnexport gpioLED1, GpioUnexport gpioLED2,
      FreeIrq (irqNumberA s), GpioUnexport gpioButtonA,
      FreeIrq (irqNumberB s), GpioUnexport gpioButtonB,
      FreeIrq (irqNumberC s), GpioUnexport gpioButtonC,
      FreeIrq (irqNumberD s), GpioUnexport gpioButtonD,
      GpioFree gpioLED1, GpioFree gpioLED2,
      GpioFree gpioButtonA, GpioFree gpioButtonB, GpioFree gpioButtonC, GpioFree gpioButtonD,
      Printk ''Button A has been pressed %d times.'' [U (numberPressesA s)],
      Printk ''Button B has been pressed %d times.'' [U (numberPressesB s)],
      Printk ''Button C has been pressed %d times.'' [U (numberPressesC s)],
      Printk ''Button D has been pressed %d times.'' [U (numberPressesD s)],
      Printk ''GPIO_TEST: Goodbye from the LKM!'' []]"
  by (simp add: exit_release_def Let_def)

lemma running_bound:
  "bound (hw running) = [168 \<mapsto> ButtonA, 167 \<mapsto> ButtonB, 183 \<mapsto> ButtonC, 184 \<mapsto> ButtonD]"
  by (simp add: running_def running_eq init_request_irqs_hw bound_hw_step bound_init_buttons
      bound_init_leds board_accepts board_irqs fresh_fields)

lemma deliver_A_in_window:
  "deliver board 168 (exit_leds_off board running) =
     snd (ebbgpio_irq_handlerA board 168 (exit_leds_off board running))"
  by (simp add: deliver_def exit_leds_off_hw bound_hw_step running_bound)

lemma exit_uninterrupted:
  assumes "requested (hw s) \<subseteq> module_pins"
    and "gpio_valid P gpioLED1" and "gpio_valid P gpioLED2"
  shows "requested (hw (ebbgpio_exit P s)) = {}
    \<and> set (released (drop (length (trace s)) (trace (ebbgpio_exit P s)))) = module_pins
    \<and> GpioSetValue gpioLED1 False \<in> set (trace (ebbgpio_exit P s))
    \<and> GpioSetValue gpioLED2 False \<in> set (trace (ebbgpio_exit P s))
    \<and> \<not> level (hw (ebbgpio_exit P s)) gpioLED1
    \<and> \<not> level (hw (ebbgpio_exit P s)) gpioLED2
    \<and> Printk ''Button A has been pressed %d times.'' [U (numberPressesA s)]
        \<in> set (trace (ebbgpio_exit P s))
    \<and> Printk ''Button B has been pressed %d times.'' [U (numberPressesB s)]
        \<in> set (trace (ebbgpio_exit P s))
    \<and> Printk ''Button C has been pressed %d times.'' [U (numberPressesC s)]
        \<in> set (trace (ebbgpio_exit P s))
    \<and> Printk ''Button D has been pressed %d times.'' [U (numberPressesD s)]
        \<in> set (trace (ebbgpio_exit P s))"
proof -
  have req: "requested (hw (ebbgpio_exit P s)) = requested (hw s) - module_pins"
    by (auto simp add: ebbgpio_exit_hw requested_hw_step module_pins_def)
  have lev: "level (hw (ebbgpio_exit P s)) = (level (hw s))(gpioLED1 := False, gpioLED2 := False)"
    using assms(2,3) by (simp add: ebbgpio_exit_hw level_hw_step)
  from req assms(1) have "requested (hw (ebbgpio_exit P s)) = {}" by auto
  moreover from lev have "\<not> level (hw (ebbgpio_exit P s)) gpioLED1"
    "\<not> level (hw (ebbgpio_exit P s)) gpioLED2"
    by simp_all
  moreover have "set (released (drop (length (trace s)) (trace (ebbgpio_exit P s)))) = module_pins"
    by (simp add: ebbgpio_exit_trace module_pins_def)
  ultimately show ?thesis
    by (simp add: ebbgpio_exit_trace)
qed

section \<open>The claims\<close>

subsection \<open>C1: what a press changes\<close>

text \<open>
  C1, as stated: a qualifying edge on button \<open>i\<close> inverts the previous state of LED \<open>i\<close>.
  The module has two LEDs for four buttons and no handler inverts anything. After the
  initialisation on the reference board LED 1 is on, and a press of button A leaves it on.
\<close>

theorem handlerA_does_not_toggle:
  "led1On running \<and> led1On (snd (ebbgpio_irq_handlerA board 168 running))"
  by (simp add: running_statics)

text \<open>
  C1, amended: the handler of button A sets LED 1 on, that of button B sets LED 1 off, that
  of button C sets LED 2 on and that of button D sets LED 2 off, both in the flag and on
  the output line (when the platform has that line); the other LED's flag and every other
  line keep their values; the handler of button \<open>b\<close> adds one, modulo \<open>2 ^ 32\<close>, to the
  counter of \<open>b\<close> and leaves the other three counters unchanged.
\<close>

theorem handler_sets_led_and_counts:
  "led1On (snd (handler b P irq s)) =
     (case b of ButtonA \<Rightarrow> True | ButtonB \<Rightarrow> False | _ \<Rightarrow> led1On s)
   \<and> led2On (snd (handler b P irq s)) =
     (case b of ButtonC \<Rightarrow> True | ButtonD \<Rightarrow> False | _ \<Rightarrow> led2On s)
   \<and> level (hw (snd (handler b P irq s))) =
     (case b of
        ButtonA \<Rightarrow> if gpio_valid P gpioLED1 then (level (hw s))(gpioLED1 := True) else level (hw s)
      | ButtonB \<Rightarrow> if gpio_valid P gpioLED1 then (level (hw s))(gpioLED1 := False) else level (hw s)
      | ButtonC \<Rightarrow> if gpio_valid P gpioLED2 then (level (hw s))(gpioLED2 := True) else level (hw s)
      | ButtonD \<Rightarrow> if gpio_valid P gpioLED2 then (level (hw s))(gpioLED2 := False) else level (hw s))
   \<and> numberPresses b' (snd (handler b P irq s)) =
     (if b' = b then numberPresses b' s + 1 else numberPresses b' s)"
  by (cases b; cases b') (simp_all add: level_hw_step)

subsection \<open>C5: the order of the steps inside a handler\<close>

text \<open>
  C5, as stated: the counter is incremented before the notification task is dispatched.
  In the source the call to \<^verbatim>\<open>call_usermodehelper\<close> comes first and the increment is the
  last statement before the return; so it is in the trace of a press of button A on the
  freshly loaded module.
\<close>

theorem handlerA_dispatches_before_counting:
  "precedes (CallUsermodehelper argv1) (StoreCounter ButtonA 1)
     (trace (snd (ebbgpio_irq_handlerA board 168 fresh))) \<and>
   \<not> precedes (StoreCounter ButtonA 1) (CallUsermodehelper argv1)
     (trace (snd (ebbgpio_irq_handlerA board 168 fresh)))"
  by (simp add: fresh_fields)

text \<open>
  C5, amended: every handler performs its steps in the order: store the LED flag, write
  the flag to the output line, log the button's level, dispatch the notification task,
  increment the press counter.
\<close>

theorem handler_step_order:
  "trace (snd (ebbgpio_irq_handlerA P irq s)) = trace s @
     [StoreLed LED1 True, GpioSetValue gpioLED1 True,
      Printk ''GPIO_TEST: Interrupt! (button A state is %d)''
        [I (gpio_get_value (kdo P (GpioSetValue gpioLED1 True) s) gpioButtonA)],
      CallUsermodehelper argv1, StoreCounter ButtonA (numberPressesA s + 1)]
   \<and> trace (snd (ebbgpio_irq_handlerB P irq s)) = trace s @
     [StoreLed LED1 False, GpioSetValue gpioLED1 False,
      Printk ''GPIO_TEST: Interrupt! (button B state is %d)''
        [I (gpio_get_value (kdo P (GpioSetValue gpioLED1 False) s) gpioButtonB)],
      CallUsermodehelper argv2, StoreCounter ButtonB (numberPressesB s + 1)]
   \<and> trace (snd (ebbgpio_irq_handlerC P irq s)) = trace s @
     [StoreLed LED2 True, GpioSetValue gpioLED2 True,
      Printk ''GPIO_TEST: Interrupt! (button C state is %d)''
        [I (gpio_get_value (kdo P (GpioSetValue gpioLED2 True) s) gpioButtonC)],
      CallUsermodehelper argv3, StoreCounter ButtonC (numberPressesC s + 1)]
   \<and> trace (snd (ebbgpio_irq_handlerD P irq s)) = trace s @
     [StoreLed LED2 False, GpioSetValue gpioLED2 False,
      Printk ''GPIO_TEST: Interrupt! (button D state is %d)''
        [I (gpio_get_value (kdo P (GpioSetValue gpioLED2 False) s) gpioButtonD)],
      CallUsermodehelper argv4, StoreCounter ButtonD (numberPressesD s + 1)]"
  by simp

subsection \<open>C8: the counters\<close>

text \<open>
  C8, as stated: a counter never decreases. The counters are \<^verbatim>\<open>unsigned int\<close>: a press
  at the value \<open>2 ^ 32 - 1\<close> wraps the counter to 0.
\<close>

theorem counter_wraps:
  "numberPressesA (snd (ebbgpio_irq_handlerA board 168 (fresh\<lparr>numberPressesA := 4294967295\<rparr>)))
     < numberPressesA (fresh\<lparr>numberPressesA := 4294967295\<rparr>)"
  by simp

text \<open>
  C8, amended: as long as the counter of button \<open>b\<close> is below \<open>2 ^ 32 - 1\<close>, an
  invocation of the handler of \<open>b\<close> increases it by exactly 1 and an invocation of any
  other handler leaves it unchanged.
\<close>

theorem counter_step:
  "numberPresses b s \<noteq> - 1 \<Longrightarrow>
   unat (numberPresses b (snd (handler b' P irq s))) =
     unat (numberPresses b s) + (if b' = b then 1 else 0)"
  by (cases b; cases b') (simp_all add: unat_inc)

theorem counter_step_witness:
  "numberPresses ButtonA fresh \<noteq> - 1 \<and>
   unat (numberPresses ButtonA (snd (handler ButtonA board 168 fresh))) = 1"
  using counter_step [of ButtonA fresh ButtonA board 168]
  by (simp add: fresh_fields)

subsection \<open>C9: a notification task that fails to launch\<close>

text \<open>
  C9: the handler discards the result of \<^verbatim>\<open>call_usermodehelper\<close>. Whatever the launch
  returns, the handler returns the same value and leaves the same state: it returns
  \<^verbatim>\<open>IRQ_HANDLED\<close>, the counter of its button is incremented, and the LED flags and lines
  are those of a successful launch.
\<close>

theorem launch_result_ignored:
  "handler b (P\<lparr>umh_result := f\<rparr>) irq s = handler b P irq s
   \<and> fst (handler b (P\<lparr>umh_result := f\<rparr>) irq s) = IRQ_HANDLED
   \<and> numberPresses b (snd (handler b (P\<lparr>umh_result := f\<rparr>) irq s)) = numberPresses b s + 1"
proof -
  have step: "hw_step (P\<lparr>umh_result := f\<rparr>) e h = hw_step P e h" for e h
    by (cases e) (simp_all add: hw_step.simps)
  have kdo: "kdo (P\<lparr>umh_result := f\<rparr>) e s' = kdo P e s'" for e s'
    by (simp add: kdo_def kcall_def step)
  have same: "handler b (P\<lparr>umh_result := f\<rparr>) irq s = handler b P irq s"
    by (cases b) (simp_all add: ebbgpio_irq_handlerA_def ebbgpio_irq_handlerB_def
        ebbgpio_irq_handlerC_def ebbgpio_irq_handlerD_def kdo)
  have ret: "fst (handler b P irq s) = IRQ_HANDLED"
    by (cases b) simp_all
  have cnt: "numberPresses b (snd (handler b P irq s)) = numberPresses b s + 1"
    by (cases b) simp_all
  from same ret cnt show ?thesis by simp
qed

subsection \<open>C10: the value a handler returns\<close>

text \<open>
  C10: every handler returns \<^verbatim>\<open>IRQ_HANDLED\<close>, for every button, platform, interrupt
  number and state.
\<close>

theorem handler_returns_IRQ_HANDLED:
  "fst (handler b P irq s) = IRQ_HANDLED"
  by (cases b) simp_all

subsection \<open>C2: the state after a successful initialisation\<close>

text \<open>
  C2, as stated: after a successful initialisation every LED is off. The source sets both
  flags to true and drives both lines to 1 (its comment: the LED "will be on by
  default"); so it is on the reference board.
\<close>

theorem leds_on_after_init:
  "fst (ebbgpio_init board fresh) = 0 \<and> led1On running \<and> led2On running \<and>
   level (hw running) gpioLED1 \<and> level (hw running) gpioLED2"
  by (simp add: running_result running_statics running_level)

text \<open>
  C2, amended: after a successful initialisation of the freshly loaded module every press
  counter is 0 and both LEDs are on, in the flags and on the output lines.
\<close>

theorem init_success_state:
  assumes "fst (ebbgpio_init P (module_loaded h)) = 0"
  shows "numberPressesA (snd (ebbgpio_init P (module_loaded h))) = 0 \<and>
   numberPressesB (snd (ebbgpio_init P (module_loaded h))) = 0 \<and>
   numberPressesC (snd (ebbgpio_init P (module_loaded h))) = 0 \<and>
   numberPressesD (snd (ebbgpio_init P (module_loaded h))) = 0 \<and>
   led1On (snd (ebbgpio_init P (module_loaded h))) \<and>
   led2On (snd (ebbgpio_init P (module_loaded h))) \<and>
   level (hw (snd (ebbgpio_init P (module_loaded h)))) gpioLED1 \<and>
   level (hw (snd (ebbgpio_init P (module_loaded h)))) gpioLED2"
proof -
  from assms have v: "gpio_valid P gpioLED1" "gpio_valid P gpioLED2"
    using ebbgpio_init_success_valid by blast+
  show ?thesis
    by (simp add: ebbgpio_init_valid [OF v] level_init_request_irqs level_init_buttons
        level_init_leds [OF v] module_loaded_def)
qed

theorem init_success_state_witness:
  "fst (ebbgpio_init board (module_loaded hw_idle)) = 0 \<and>
   numberPressesA (snd (ebbgpio_init board (module_loaded hw_idle))) = 0 \<and>
   led1On (snd (ebbgpio_init board (module_loaded hw_idle))) \<and>
   level (hw (snd (ebbgpio_init board (module_loaded hw_idle)))) gpioLED1"
  using init_success_state [of board hw_idle] running_result
  by (simp add: fresh_def)

subsection \<open>C3: the order of the cleanup\<close>




subsection \<open>C4: the value the initialisation returns\<close>

text \<open>
  C4, as stated: if any step fails, the first error is returned. The source never reads
  the result of \<^verbatim>\<open>gpio_request\<close>. With LED 1's line already owned by someone else, the
  request for it (the first kernel call of the initialisation) fails with \<^verbatim>\<open>-EBUSY\<close>
  and the initialisation returns 0.
\<close>

theorem init_ignores_busy_line:
  "fst (kcall board (GpioRequest gpioLED1 ''sysfs'')
          (fresh\<lparr>hw := hw_idle\<lparr>requested := {gpioLED1}\<rparr>\<rparr>)) = - EBUSY
   \<and> fst (ebbgpio_init board (fresh\<lparr>hw := hw_idle\<lparr>requested := {gpioLED1}\<rparr>\<rparr>)) = 0"
  by (simp add: ebbgpio_init_valid board_valid bound_init_leds bound_init_buttons board_accepts)
     (simp add: hw_idle_def)

text \<open>
  C4, amended: if the pin of LED 1 or of LED 2 is invalid, the initialisation returns
  \<^verbatim>\<open>-ENODEV\<close> and has touched no line or interrupt. If both are valid and registering
  button A's interrupt fails, the initialisation returns that error. If all six pins are
  valid and the four registrations succeed (the four interrupts are distinct, unbound and
  not rejected), the initialisation returns 0 with the four handlers bound, whether or
  not a line was busy: the results of the line requests are not checked.
\<close>

theorem init_result:
  "(\<not> gpio_valid P gpioLED1 \<or> \<not> gpio_valid P gpioLED2 \<longrightarrow>
      fst (ebbgpio_init P s) = - ENODEV \<and> hw (snd (ebbgpio_init P s)) = hw s)
   \<and> (gpio_valid P gpioLED1 \<and> gpio_valid P gpioLED2 \<and>
      hw_result P (RequestIrq (gpio_to_irq P gpioButtonA) ButtonA) (hw s) \<noteq> 0 \<longrightarrow>
      fst (ebbgpio_init P s) =
        hw_result P (RequestIrq (gpio_to_irq P gpioButtonA) ButtonA) (hw s))
   \<and> (gpio_valid P gpioLED1 \<and> gpio_valid P gpioLED2 \<and>
      gpio_valid P gpioButtonA \<and> gpio_valid P gpioButtonB \<and>
      gpio_valid P gpioButtonC \<and> gpio_valid P gpioButtonD \<and>
      distinct [gpio_to_irq P gpioButtonA, gpio_to_irq P gpioButtonB,
                gpio_to_irq P gpioButtonC, gpio_to_irq P gpioButtonD] \<and>
      irq_reject P (gpio_to_irq P gpioButtonA) = 0 \<and>
      bound (hw s) (gpio_to_irq P gpioButtonA) = None \<and>
      irq_reject P (gpio_to_irq P gpioButtonB) = 0 \<and>
      bound (hw s) (gpio_to_irq P gpioButtonB) = None \<and>
      irq_reject P (gpio_to_irq P gpioButtonC) = 0 \<and>
      bound (hw s) (gpio_to_irq P gpioButtonC) = None \<and>
      irq_reject P (gpio_to_irq P gpioButtonD) = 0 \<and>
      bound (hw s) (gpio_to_irq P gpioButtonD) = None \<longrightarrow>
      fst (ebbgpio_init P s) = 0 \<and>
      bound (hw (snd (ebbgpio_init P s))) (gpio_to_irq P gpioButtonA) = Some ButtonA \<and>
      bound (hw (snd (ebbgpio_init P s))) (gpio_to_irq P gpioButtonB) = Some ButtonB \<and>
      bound (hw (snd (ebbgpio_init P s))) (gpio_to_irq P gpioButtonC) = Some ButtonC \<and>
      bound (hw (snd (ebbgpio_init P s))) (gpio_to_irq P gpioButtonD) = Some ButtonD)"
proof (intro conjI impI)
  assume "\<not> gpio_valid P gpioLED1 \<or> \<not> gpio_valid P gpioLED2"
  then show "fst (ebbgpio_init P s) = - ENODEV" "hw (snd (ebbgpio_init P s)) = hw s"
    by (auto simp add: ebbgpio_init_def gpio_is_valid_def Let_def)
next
  assume "gpio_valid P gpioLED1 \<and> gpio_valid P gpioLED2 \<and>
      hw_result P (RequestIrq (gpio_to_irq P gpioButtonA) ButtonA) (hw s) \<noteq> 0"
  then show "fst (ebbgpio_init P s) =
      hw_result P (RequestIrq (gpio_to_irq P gpioButtonA) ButtonA) (hw s)"
    by (simp add: ebbgpio_init_valid bound_init_leds bound_init_buttons)
next
  assume a: "gpio_valid P gpioLED1 \<and> gpio_valid P gpioLED2 \<and>
      gpio_valid P gpioButtonA \<and> gpio_valid P gpioButtonB \<and>
      gpio_valid P gpioButtonC \<and> gpio_valid P gpioButtonD \<and>
      distinct [gpio_to_irq P gpioButtonA, gpio_to_irq P gpioButtonB,
                gpio_to_irq P gpioButtonC, gpio_to_irq P gpioButtonD] \<and>
      irq_reject P (gpio_to_irq P gpioButtonA) = 0 \<and>
      bound (hw s) (gpio_to_irq P gpioButtonA) = None \<and>
      irq_reject P (gpio_to_irq P gpioButtonB) = 0 \<and>
      bound (hw s) (gpio_to_irq P gpioButtonB) = None \<and>
      irq_reject P (gpio_to_irq P gpioButtonC) = 0 \<and>
      bound (hw s) (gpio_to_irq P gpioButtonC) = None \<and>
      irq_reject P (gpio_to_irq P gpioButtonD) = 0 \<and>
      bound (hw s) (gpio_to_irq P gpioButtonD) = None"
  then show "fst (ebbgpio_init P s) = 0"
    by (simp add: ebbgpio_init_valid bound_init_leds bound_init_buttons)
  from a show
    "bound (hw (snd (ebbgpio_init P s))) (gpio_to_irq P gpioButtonA) = Some ButtonA"
    "bound (hw (snd (ebbgpio_init P s))) (gpio_to_irq P gpioButtonB) = Some ButtonB"
    "bound (hw (snd (ebbgpio_init P s))) (gpio_to_irq P gpioButtonC) = Some ButtonC"
    "bound (hw (snd (ebbgpio_init P s))) (gpio_to_irq P gpioButtonD) = Some ButtonD"
    by (auto simp add: ebbgpio_init_valid init_request_irqs_hw bound_hw_step
        bound_init_leds bound_init_buttons)
qed

theorem init_result_witness:
  "\<not> gpio_valid (board\<lparr>gpio_valid := \<lambda>p. p < 14\<rparr>) gpioLED1
   \<and> fst (ebbgpio_init (board\<lparr>gpio_valid := \<lambda>p. p < 14\<rparr>) fresh) = - ENODEV
   \<and> hw_result (board\<lparr>irq_reject := \<lambda>n. if n = 168 then - EBUSY else 0\<rparr>)
        (RequestIrq 168 ButtonA) (hw fresh) = - EBUSY
   \<and> fst (ebbgpio_init (board\<lparr>irq_reject := \<lambda>n. if n = 168 then - EBUSY else 0\<rparr>) fresh)
       = - EBUSY
   \<and> hw_result board (GpioRequest gpioLED1 ''sysfs'')
        (hw (fresh\<lparr>hw := hw_idle\<lparr>requested := {gpioLED1}\<rparr>\<rparr>)) = - EBUSY
   \<and> fst (ebbgpio_init board (fresh\<lparr>hw := hw_idle\<lparr>requested := {gpioLED1}\<rparr>\<rparr>)) = 0"
proof -
  let ?P1 = "board\<lparr>gpio_valid := \<lambda>p. p < 14\<rparr>"
  let ?P2 = "board\<lparr>irq_reject := \<lambda>n. if n = 168 then - EBUSY else 0\<rparr>"
  let ?s3 = "fresh\<lparr>hw := hw_idle\<lparr>requested := {gpioLED1}\<rparr>\<rparr>"
  have 1: "\<not> gpio_valid ?P1 gpioLED1" by (simp add: pin_defs)
  have v2: "gpio_valid ?P2 gpioLED1" "gpio_valid ?P2 gpioLED2"
    by (simp_all add: board_def pin_defs)
  have i2: "gpio_to_irq ?P2 gpioButtonA = 168"
    by (simp add: gpio_to_irq_def board_def pin_defs)
  have r2: "hw_result ?P2 (RequestIrq 168 ButtonA) (hw fresh) = - EBUSY"
    by (simp add: EBUSY_def)
  have b3: "bound (hw ?s3) = Map.empty" by (simp add: hw_idle_def)
  have "fst (ebbgpio_init ?P1 fresh) = - ENODEV"
    using init_result [of ?P1 fresh] 1 by blast
  moreover have "fst (ebbgpio_init ?P2 fresh) = - EBUSY"
    using init_result [of ?P2 fresh] v2 r2 by (simp add: i2 EBUSY_def)
  moreover have "fst (ebbgpio_init board ?s3) = 0"
    using init_result [of board ?s3] b3 by (simp add: board_valid board_irqs board_accepts)
  moreover have "hw_result board (GpioRequest gpioLED1 ''sysfs'') (hw ?s3) = - EBUSY"
    by (simp add: board_valid)
  ultimately show ?thesis using 1 r2 by simp
qed

subsection \<open>C6: validation of the pins\<close>

text \<open>
  C6: every pin outside the valid range makes the initialisation fail with the
  invalid-pin error before anything is acquired on it. The source validates the two LED
  pins and none of the four button pins. On the board with sixteen lines the pin of
  button C is invalid; the initialisation requests it all the same and returns 0.
\<close>

theorem init_accepts_invalid_button_pin:
  "\<not> gpio_is_valid small_board gpioButtonC \<and>
   fst (ebbgpio_init small_board fresh) = 0 \<and>
   GpioRequest gpioButtonC ''sysfs'' \<in> set (trace (snd (ebbgpio_init small_board fresh)))"
proof -
  have v: "gpio_valid small_board gpioLED1" "gpio_valid small_board gpioLED2"
    by (simp_all add: small_board_def pin_defs)
  have "\<not> gpio_is_valid small_board gpioButtonC"
    by (simp add: gpio_is_valid_def small_board_def pin_defs)
  moreover have "fst (ebbgpio_init small_board fresh) = 0"
    by (simp add: ebbgpio_init_valid [OF v] bound_init_leds bound_init_buttons fresh_fields)
       (simp add: small_board_def gpio_to_irq_def pin_defs)
  moreover have "GpioRequest gpioButtonC ''sysfs''
      \<in> set (trace (snd (ebbgpio_init small_board fresh)))"
    by (simp add: ebbgpio_init_valid [OF v])
  ultimately show ?thesis by simp
qed

subsection \<open>C7: the state after the cleanup\<close>

text \<open>
  C7: after the cleanup every LED line is off, the line table is empty and the log holds
  the final value of every counter. The source switches the LEDs off (lines 150 and 151,
  "makes it clear the device was unloaded") before it frees the interrupts (lines 154 to
  160), so the handlers are still registered when the LEDs go off. On the reference
  board, with the module running, a press of button A delivered after line 151 and before
  line 154 runs handler A, which switches LED 1 on again; nothing in the rest of the
  cleanup writes the line, and LED 1 is on after the cleanup. The table is empty and the
  counter logged is the final one all the same.
\<close>

theorem exit_interrupted_leaves_led_on:
  "ebbgpio_exit board running = exit_release board (exit_leds_off board running)
   \<and> \<not> level (hw (exit_leds_off board running)) gpioLED1
   \<and> bound (hw (exit_leds_off board running)) 168 = Some ButtonA
   \<and> level (hw (exit_release board (deliver board 168 (exit_leds_off board running)))) gpioLED1
   \<and> bound (hw (exit_release board (deliver board 168 (exit_leds_off board running)))) 168 = None
   \<and> requested (hw (exit_release board (deliver board 168 (exit_leds_off board running)))) = {}
   \<and> Printk ''Button A has been pressed %d times.'' [U 1]
        \<in> set (trace (exit_release board (deliver board 168 (exit_leds_off board running))))"
proof -
  let ?w = "exit_leds_off board running"
  let ?e = "exit_release board (deliver board 168 ?w)"
  have "\<not> level (hw ?w) gpioLED1"
    using pins_distinct by (simp add: exit_leds_off_hw level_hw_step board_valid running_level)
  moreover have "bound (hw ?w) 168 = Some ButtonA"
    by (simp add: exit_leds_off_hw bound_hw_step running_bound)
  moreover have "level (hw ?e) gpioLED1"
    by (simp add: deliver_A_in_window exit_release_hw level_hw_step board_valid)
  moreover have "bound (hw ?e) 168 = None"
    by (simp add: deliver_A_in_window exit_release_hw bound_hw_step running_statics)
  moreover have "requested (hw ?e) = {}"
    by (auto simp add: deliver_A_in_window exit_release_hw exit_leds_off_hw requested_hw_step
        running_requested module_pins_def)
  moreover have "Printk ''Button A has been pressed %d times.'' [U 1] \<in> set (trace ?e)"
    by (simp add: deliver_A_in_window exit_release_trace running_statics)
  ultimately show ?thesis
    by (simp add: exit_split)
qed

end
